theory Spec2Isabelle
  imports Main "HOL-Library.Word" "HOL-Library.Signed_Division"
begin

section \<open>WinFlipbook: a shallow embedding of \<^verbatim>\<open>WinFlipbook.cpp\<close>\<close>

text \<open>
  The program is one C++ file: an anonymous namespace with the shader, shader-program and
  texture wrappers, and \<^verbatim>\<open>main\<close>, which fills a buffer with ten images of a white
  bar, opens a window, sets up the OpenGL pipeline and then uploads and draws one image
  per iteration until the escape key is pressed or the window is closed.

  The embedding keeps the structure of the source. Calls into GLFW, GLEW and OpenGL are
  recorded, in program order, in a trace (a \<open>call list\<close>) that every function takes and
  returns; what the libraries answer is read from a \<open>driver\<close> record. A thrown exception
  is the \<open>Inl\<close> of a sum, and the render loop, which may run forever, is a
  \<^theory_text>\<open>partial_function\<close> in the option monad (\<open>None\<close>: it never returns).
\<close>

subsection \<open>Machine integers\<close>

text \<open>
  \<^verbatim>\<open>int\<close> is a 32-bit two's-complement integer on the program's targets. Values are
  modelled as \<open>int\<close>; \<open>int32\<close> is written wherever the source computes a sum or a
  product, and reduces the mathematical result to the 32-bit value the machine keeps.
  (C++ leaves signed overflow undefined; two's-complement hardware wraps.) Division
  and remainder are C's, truncating towards zero: \<open>sdiv\<close> and \<open>smod\<close>.
\<close>

definition int32 :: "int \<Rightarrow> int" where
  "int32 v = signed_take_bit 31 v"

subsection \<open>The image generator (\<^verbatim>\<open>main\<close>, lines 185--202)\<close>

text \<open>
  \<^verbatim>\<open>
  const int NUMIMAGES = 10;            // line 17
  const int width = 1024;              // line 181
  const int height = 768;              // line 182
  unsigned* images;
  {
      int i, x, y;
      unsigned* p;
      images = new unsigned[width * height * NUMIMAGES * 4];
      p = images;
      for (i = 0; i < NUMIMAGES; i++) {
          int bar = width * i / NUMIMAGES;
          int barw = width / NUMIMAGES;
          for (y = 0; y < height; y++) {
              for (x = 0; x < width; x++) {
                  if (x >= bar && x <= bar + barw) *p++ = 0xffffffff;
                  else *p++ = 0;
              }
          }
      }
  }
  \<close>
  A pixel is one \<^verbatim>\<open>unsigned\<close>, a 32-bit word. The pointer \<open>p\<close> starts at the
  first element and moves by one at every store, so the elements written so far are a
  list \<open>buf\<close> and \<open>p\<close> is \<open>images + length buf\<close>. The three loops are three
  recursive functions over the loop variable, generic in the geometry \<open>w\<close>, \<open>h\<close>,
  \<open>n\<close>; the program runs them at \<open>width\<close>, \<open>height\<close>, \<open>NUMIMAGES\<close>.
\<close>

type_synonym pixel = "32 word"

definition NUMIMAGES :: int where
  "NUMIMAGES = 10"

definition width :: int where
  "width = 1024"

definition height :: int where
  "height = 768"

definition bar_of :: "int \<Rightarrow> int \<Rightarrow> int \<Rightarrow> int" where
  "bar_of w n i = int32 (w * i) sdiv n"

definition barw_of :: "int \<Rightarrow> int \<Rightarrow> int" where
  "barw_of w n = w sdiv n"

definition bar_pixel :: "int \<Rightarrow> int \<Rightarrow> int \<Rightarrow> pixel" where
  "bar_pixel bar barw x = (if x \<ge> bar \<and> x \<le> int32 (bar + barw) then 0xffffffff else 0)"

function x_loop :: "int \<Rightarrow> int \<Rightarrow> int \<Rightarrow> int \<Rightarrow> pixel list \<Rightarrow> pixel list" where
  "x_loop w bar barw x buf =
     (if x < w then x_loop w bar barw (x + 1) (buf @ [bar_pixel bar barw x]) else buf)"
  by pat_completeness auto
termination
  by (relation "measure (\<lambda>(w, bar, barw, x, buf). nat (w - x))") auto

function y_loop :: "int \<Rightarrow> int \<Rightarrow> int \<Rightarrow> int \<Rightarrow> int \<Rightarrow> pixel list \<Rightarrow> pixel list" where
  "y_loop w h bar barw y buf =
     (if y < h then y_loop w h bar barw (y + 1) (x_loop w bar barw 0 buf) else buf)"
  by pat_completeness auto
termination
  by (relation "measure (\<lambda>(w, h, bar, barw, y, buf). nat (h - y))") auto

function i_loop :: "int \<Rightarrow> int \<Rightarrow> int \<Rightarrow> int \<Rightarrow> pixel list \<Rightarrow> pixel list" where
  "i_loop w h n i buf =
     (if i < n
      then i_loop w h n (i + 1) (y_loop w h (bar_of w n i) (barw_of w n) 0 buf)
      else buf)"
  by pat_completeness auto
termination
  by (relation "measure (\<lambda>(w, h, n, i, buf). nat (n - i))") auto

text \<open>
  The buffer: the number of \<^verbatim>\<open>unsigned\<close> elements asked of \<^verbatim>\<open>new[]\<close>, and the
  elements the loops stored, from element 0 on. Elements of the allocation past the
  stored ones are uninitialised. An \<^verbatim>\<open>unsigned\<close> is four bytes: the buffer is
  handed to \<^verbatim>\<open>glTexImage2D\<close> as \<^verbatim>\<open>GL_RGBA\<close>, \<^verbatim>\<open>GL_UNSIGNED_BYTE\<close>, one
  element per pixel.
\<close>

record image_buffer =
  alloc_elems :: int
  written :: "pixel list"

definition sizeof_unsigned :: int where
  "sizeof_unsigned = 4"

definition alloc_bytes :: "image_buffer \<Rightarrow> int" where
  "alloc_bytes b = alloc_elems b * sizeof_unsigned"

definition init_images :: "int \<Rightarrow> int \<Rightarrow> int \<Rightarrow> image_buffer" where
  "init_images w h n =
     \<lparr> alloc_elems = int32 (int32 (int32 (w * h) * n) * 4),
       written = i_loop w h n 0 [] \<rparr>"

definition images :: image_buffer where
  "images = init_images width height NUMIMAGES"

text \<open>
  Reading the buffer. \<open>pixel_at pix w h i y x\<close> is the element at column \<open>x\<close> of row
  \<open>y\<close> of image \<open>i\<close>, images of \<open>h\<close> rows of \<open>w\<close> elements lying one after the
  other, which is how the loops above store them and how \<^verbatim>\<open>glTexImage2D\<close> reads the
  \<open>w * h\<close> elements after \<^verbatim>\<open>images + i * w * h\<close>. Outside the stored elements
  there is nothing to read: \<open>None\<close>.
\<close>

definition pixel_at :: "pixel list \<Rightarrow> int \<Rightarrow> int \<Rightarrow> int \<Rightarrow> int \<Rightarrow> int \<Rightarrow> pixel option" where
  "pixel_at pix w h i y x =
     (let k = i * w * h + y * w + x
      in if 0 \<le> k \<and> k < int (length pix) then Some (pix ! nat k) else None)"

definition white_at :: "int \<Rightarrow> int \<Rightarrow> int \<Rightarrow> bool" where
  "white_at i y x \<longleftrightarrow>
     0 \<le> x \<and> x < width \<and> pixel_at (written images) width height i y x = Some 0xffffffff"

subsection \<open>The libraries: calls and answers\<close>

text \<open>
  Every call into GLFW, GLEW and OpenGL, the allocation and the writes to standard
  error are events of a trace, in program order. An event keeps the arguments that
  identify the object it works on; arguments that are fixed enumerators of the library
  headers are kept by name. The events are grouped by the kind of object, one datatype
  per group.
\<close>

type_synonym GLuint = "32 word"
type_synonym GLint = int

datatype shader_type = GL_VERTEX_SHADER | GL_FRAGMENT_SHADER

datatype buffer_target = GL_ARRAY_BUFFER | GL_ELEMENT_ARRAY_BUFFER

datatype glfw_call =
    GlfwInit
  | GlfwWindowHint string string
  | GlfwCreateWindow int int string
  | GlfwMakeContextCurrent
  | GlfwSetInputMode
  | GlfwSwapBuffers
  | GlfwPollEvents
  | GlfwGetKey
  | GlfwWindowShouldClose
  | GlfwTerminate

datatype shader_call =
    GlCreateShader shader_type GLuint
  | GlShaderSource GLuint string
  | GlCompileShader GLuint
  | GlGetShaderiv GLuint
  | GlGetShaderInfoLog GLuint nat
  | GlAttachShader GLuint GLuint
  | GlDeleteShader GLuint

datatype program_call =
    GlCreateProgram GLuint
  | GlBindFragDataLocation GLuint nat string
  | GlLinkProgram GLuint
  | GlUseProgram GLuint
  | GlGetAttribLocation GLuint string
  | GlGetUniformLocation GLuint string
  | GlUniform2f GLint int int
  | GlDeleteProgram GLuint

datatype buffer_call =
    GlGenVertexArrays GLuint
  | GlBindVertexArray GLuint
  | GlDeleteVertexArrays GLuint
  | GlGenBuffers GLuint
  | GlBindBuffer buffer_target GLuint
  | GlBufferData buffer_target nat
  | GlVertexAttribPointer GLint nat
  | GlEnableVertexAttribArray GLint
  | GlDeleteBuffers GLuint

datatype texture_call =
    GlGenTextures GLuint
  | GlBindTexture GLuint
  | GlTexParameteri string string
  | GlTexImage2D int int int
  | GlDeleteTextures GLuint

datatype draw_call =
    GlewInit
  | GlGetString string
  | GlClearColor
  | GlClear
  | GlDrawElements nat

datatype call =
    OperatorNew int
  | WriteStderr string
  | Getchar
  | Glfw glfw_call
  | Shader shader_call
  | Program program_call
  | Buffer buffer_call
  | Texture texture_call
  | Draw draw_call

text \<open>
  \<open>GlCreateShader\<close>, \<open>GlCreateProgram\<close> and the \<open>GlGen\<close> events carry the name the
  library returned. \<open>GlTexImage2D w h off\<close> is the upload of \<open>w * h\<close> pixels read
  from \<^verbatim>\<open>images + off\<close>. \<open>OperatorNew n\<close> is \<^verbatim>\<open>new unsigned[n]\<close>.

  The answers of the libraries. \<open>glfwGetKey d k\<close> and \<open>glfwWindowShouldClose d k\<close>
  are what the two functions return when the loop condition is evaluated for the
  \<open>k\<close>-th time (from 0). A string is the C string without its terminator. The
  constants are those of the library headers, which the repository does not contain.
\<close>

definition GL_TRUE :: GLint where
  "GL_TRUE = 1"

definition GLFW_PRESS :: int where
  "GLFW_PRESS = 1"

definition GLEW_OK :: int where
  "GLEW_OK = 0"

record driver =
  glfwInit :: int
  glfwCreateWindow :: "nat option"
  glewInit :: int
  glGenVertexArrays :: GLuint
  glCreateShader :: "shader_type \<Rightarrow> GLuint"
  glGetShaderiv :: "GLuint \<Rightarrow> GLint"
  glGetShaderInfoLog :: "GLuint \<Rightarrow> string"
  glCreateProgram :: GLuint
  glGetAttribLocation :: "string \<Rightarrow> GLint"
  glGetUniformLocation :: "string \<Rightarrow> GLint"
  glGenBuffers_vbo :: GLuint
  glGenBuffers_ebo :: GLuint
  glGenTextures :: GLuint
  glfwGetKey :: "nat \<Rightarrow> int"
  glfwWindowShouldClose :: "nat \<Rightarrow> int"

subsection \<open>The shader sources (lines 19--38)\<close>

text \<open>
  The two string literals, with the line splices removed and \<^verbatim>\<open>\n\<close> as the
  character 10.
\<close>

definition vertex_prog :: string where
  "vertex_prog =
     ''#version 150''
     @ [CHR 0x0A]
     @ ''                                  ''
     @ ''in vec2 position;                               ''
     @ ''void main()                                     ''
     @ ''{                                               ''
     @ ''    gl_Position = vec4(position, 0.5, 1.0);     ''
     @ ''}''"

definition fragment_prog :: string where
  "fragment_prog =
     ''#version 150''
     @ [CHR 0x0A]
     @ ''                                  ''
     @ ''out vec4 outColor;                              ''
     @ ''uniform vec2 dims;                              ''
     @ ''uniform sampler2D tex;                          ''
     @ ''void main() {                                   ''
     @ ''  vec2 uv;                                      ''
     @ ''  uv[0] = gl_FragCoord[0]/dims[0];              ''
     @ ''  uv[1] = 1.0f - (gl_FragCoord[1]/dims[1]);     ''
     @ ''  outColor = texture(tex, uv);                  ''
     @ ''}                                               ''"

subsection \<open>Shader objects (\<^verbatim>\<open>shader_base\<close>, lines 41--88)\<close>

text \<open>
  \<^verbatim>\<open>
  shader_base(const char* src, const GLenum& type)
      : prog_type(type), shader_obj(GL_FALSE)
  {
      shader_obj = glCreateShader(prog_type);
      glShaderSource(shader_obj, 1, &src, NULL);
      compile();
  }
  ~shader_base() { glDeleteShader(shader_obj); }
  virtual void compile()
  {
      glCompileShader(shader_obj);
      GLint status;
      glGetShaderiv(shader_obj, GL_COMPILE_STATUS, &status);
      if (GL_TRUE != status) {
          char buffer[512];
          glGetShaderInfoLog(shader_obj, 512, NULL, buffer);
          throw runtime_error(buffer);
      }
  }
  virtual void attach(const GLuint program)
  {
      glAttachShader(program, shader_obj);
  }
  \<close>
  \<^verbatim>\<open>glGetShaderInfoLog\<close> with a buffer of 512 bytes stores at most 511 characters
  of the log and the terminator; the exception's message is the C string in the buffer.
  \<^verbatim>\<open>fragment_shader\<close> and \<^verbatim>\<open>vertex_shader\<close> add nothing but the type passed
  to the base constructor.
\<close>

datatype exn = Runtime_error string

record shader_base =
  prog_type :: shader_type
  shader_obj :: GLuint

definition compile :: "driver \<Rightarrow> shader_base \<Rightarrow> call list \<Rightarrow> (exn + unit) \<times> call list" where
  "compile d s tr =
     (let tr1 = tr @ [Shader (GlCompileShader (shader_obj s))];
          status = glGetShaderiv d (shader_obj s);
          tr2 = tr1 @ [Shader (GlGetShaderiv (shader_obj s))]
      in if GL_TRUE \<noteq> status
         then (let buffer = take 511 (glGetShaderInfoLog d (shader_obj s));
                   tr3 = tr2 @ [Shader (GlGetShaderInfoLog (shader_obj s) 512)]
               in (Inl (Runtime_error buffer), tr3))
         else (Inr (), tr2))"

definition shader_base_ctor ::
  "driver \<Rightarrow> string \<Rightarrow> shader_type \<Rightarrow> call list \<Rightarrow> (exn + shader_base) \<times> call list" where
  "shader_base_ctor d src type tr =
     (let obj = glCreateShader d type;
          s = \<lparr> prog_type = type, shader_obj = obj \<rparr>;
          tr1 = tr @ [Shader (GlCreateShader type obj), Shader (GlShaderSource obj src)]
      in case compile d s tr1 of
           (Inl x, tr2) \<Rightarrow> (Inl x, tr2)
         | (Inr u, tr2) \<Rightarrow> (Inr s, tr2))"

definition shader_base_dtor :: "shader_base \<Rightarrow> call list \<Rightarrow> call list" where
  "shader_base_dtor s tr = tr @ [Shader (GlDeleteShader (shader_obj s))]"

definition shader_attach :: "shader_base \<Rightarrow> GLuint \<Rightarrow> call list \<Rightarrow> call list" where
  "shader_attach s prog tr = tr @ [Shader (GlAttachShader prog (shader_obj s))]"

definition fragment_shader ::
  "driver \<Rightarrow> string \<Rightarrow> call list \<Rightarrow> (exn + shader_base) \<times> call list" where
  "fragment_shader d src tr = shader_base_ctor d src GL_FRAGMENT_SHADER tr"

definition vertex_shader ::
  "driver \<Rightarrow> string \<Rightarrow> call list \<Rightarrow> (exn + shader_base) \<times> call list" where
  "vertex_shader d src tr = shader_base_ctor d src GL_VERTEX_SHADER tr"

subsection \<open>The shader program (\<^verbatim>\<open>shader_program\<close>, lines 91--140)\<close>

text \<open>
  \<^verbatim>\<open>
  shader_program() { handle = glCreateProgram(); }
  ~shader_program() { glDeleteProgram(handle); }
  shader_program& attach(vertex_shader& vp)   { vp.attach(handle); return *this; }
  shader_program& attach(fragment_shader& fp)
  {
      fp.attach(handle);
      glBindFragDataLocation(handle, 0, "outColor");
      return *this;
  }
  shader_program& link() { glLinkProgram(handle); return *this; }
  void use() { glUseProgram(handle); }
  GLint attrib(const char* name)  { return glGetAttribLocation(handle, name); }
  GLint uniform(const char* name) { return glGetUniformLocation(handle, name); }
  \<close>
  The two overloads of \<^verbatim>\<open>attach\<close> are \<open>attach_vertex\<close> and \<open>attach_fragment\<close>.
\<close>

record shader_program =
  handle :: GLuint

definition shader_program_ctor :: "driver \<Rightarrow> call list \<Rightarrow> shader_program \<times> call list" where
  "shader_program_ctor d tr =
     (let h = glCreateProgram d in (\<lparr> handle = h \<rparr>, tr @ [Program (GlCreateProgram h)]))"

definition shader_program_dtor :: "shader_program \<Rightarrow> call list \<Rightarrow> call list" where
  "shader_program_dtor p tr = tr @ [Program (GlDeleteProgram (handle p))]"

definition attach_vertex :: "shader_program \<Rightarrow> shader_base \<Rightarrow> call list \<Rightarrow> call list" where
  "attach_vertex p vp tr = shader_attach vp (handle p) tr"

definition attach_fragment :: "shader_program \<Rightarrow> shader_base \<Rightarrow> call list \<Rightarrow> call list" where
  "attach_fragment p fp tr =
     shader_attach fp (handle p) tr @ [Program (GlBindFragDataLocation (handle p) 0 ''outColor'')]"

definition link :: "shader_program \<Rightarrow> call list \<Rightarrow> call list" where
  "link p tr = tr @ [Program (GlLinkProgram (handle p))]"

definition use :: "shader_program \<Rightarrow> call list \<Rightarrow> call list" where
  "use p tr = tr @ [Program (GlUseProgram (handle p))]"

definition attrib ::
  "driver \<Rightarrow> shader_program \<Rightarrow> string \<Rightarrow> call list \<Rightarrow> GLint \<times> call list" where
  "attrib d p name tr =
     (glGetAttribLocation d name, tr @ [Program (GlGetAttribLocation (handle p) name)])"

definition uniform ::
  "driver \<Rightarrow> shader_program \<Rightarrow> string \<Rightarrow> call list \<Rightarrow> GLint \<times> call list" where
  "uniform d p name tr =
     (glGetUniformLocation d name, tr @ [Program (GlGetUniformLocation (handle p) name)])"

subsection \<open>The texture (\<^verbatim>\<open>framebuffer\<close>, lines 143--173)\<close>

text \<open>
  \<^verbatim>\<open>
  framebuffer(int _w, int _h) : width(_w), height(_h) { glGenTextures(1, &handle); }
  ~framebuffer() { glDeleteTextures(1, &handle); }
  void bind() { glBindTexture(GL_TEXTURE_2D, handle); glTexParameteri(...) x 4 }
  void draw(unsigned* img)
  {
      glTexImage2D(GL_TEXTURE_2D, 0, GL_RGBA, width, height, 0,
                   GL_RGBA, GL_UNSIGNED_BYTE, img);
  }
  \<close>
  The pointer \<^verbatim>\<open>img\<close> is its offset from \<^verbatim>\<open>images\<close>, in elements.
\<close>

record framebuffer =
  fb_handle :: GLuint
  fb_width :: int
  fb_height :: int

definition framebuffer_ctor ::
  "driver \<Rightarrow> int \<Rightarrow> int \<Rightarrow> call list \<Rightarrow> framebuffer \<times> call list" where
  "framebuffer_ctor d w h tr =
     (let t = glGenTextures d
      in (\<lparr> fb_handle = t, fb_width = w, fb_height = h \<rparr>, tr @ [Texture (GlGenTextures t)]))"

definition framebuffer_dtor :: "framebuffer \<Rightarrow> call list \<Rightarrow> call list" where
  "framebuffer_dtor f tr = tr @ [Texture (GlDeleteTextures (fb_handle f))]"

definition framebuffer_bind :: "framebuffer \<Rightarrow> call list \<Rightarrow> call list" where
  "framebuffer_bind f tr =
     tr @ [Texture (GlBindTexture (fb_handle f)),
           Texture (GlTexParameteri ''GL_TEXTURE_WRAP_S'' ''GL_CLAMP_TO_EDGE''),
           Texture (GlTexParameteri ''GL_TEXTURE_WRAP_T'' ''GL_CLAMP_TO_EDGE''),
           Texture (GlTexParameteri ''GL_TEXTURE_MIN_FILTER'' ''GL_LINEAR''),
           Texture (GlTexParameteri ''GL_TEXTURE_MAG_FILTER'' ''GL_LINEAR'')]"

definition framebuffer_draw :: "framebuffer \<Rightarrow> int \<Rightarrow> call list \<Rightarrow> call list" where
  "framebuffer_draw f img tr = tr @ [Texture (GlTexImage2D (fb_width f) (fb_height f) img)]"

subsection \<open>The render loop (\<^verbatim>\<open>main\<close>, lines 300--313)\<close>

text \<open>
  \<^verbatim>\<open>
  int i = 0;
  do {
      frame.draw(images + (i%NUMIMAGES)*width*height);         // send texture
      glDrawElements(GL_TRIANGLES, 6, GL_UNSIGNED_INT, 0);     // draw geometry
      glfwSwapBuffers(window);
      glfwPollEvents();
      ++i;
  } // Check if the ESC key was pressed or the window was closed
  while (glfwGetKey(window, GLFW_KEY_ESCAPE) != GLFW_PRESS &&
      glfwWindowShouldClose(window) == 0);
  \<close>
  \<open>frame_offset i\<close> is the pointer argument of \<^verbatim>\<open>draw\<close>, as an offset from
  \<^verbatim>\<open>images\<close>. \<open>loop_body\<close> is the block, \<open>loop_cond\<close> the condition with the
  short circuit of \<^verbatim>\<open>&&\<close>: the window is asked only when the key is not pressed.
  \<open>render_loop d f k i tr\<close> runs the loop from its \<open>k\<close>-th iteration on, with the
  counter at \<open>i\<close>, and returns the counter and the trace when the loop is left.
\<close>

definition frame_offset :: "int \<Rightarrow> int" where
  "frame_offset i = int32 (int32 ((i smod NUMIMAGES) * width) * height)"

definition loop_body :: "framebuffer \<Rightarrow> int \<Rightarrow> call list \<Rightarrow> int \<times> call list" where
  "loop_body f i tr =
     (let tr1 = framebuffer_draw f (frame_offset i) tr;
          tr2 = tr1 @ [Draw (GlDrawElements 6), Glfw GlfwSwapBuffers, Glfw GlfwPollEvents]
      in (int32 (i + 1), tr2))"

definition loop_cond :: "driver \<Rightarrow> nat \<Rightarrow> call list \<Rightarrow> bool \<times> call list" where
  "loop_cond d k tr =
     (if glfwGetKey d k \<noteq> GLFW_PRESS
      then (glfwWindowShouldClose d k = 0, tr @ [Glfw GlfwGetKey, Glfw GlfwWindowShouldClose])
      else (False, tr @ [Glfw GlfwGetKey]))"

partial_function (option) render_loop ::
  "driver \<Rightarrow> framebuffer \<Rightarrow> nat \<Rightarrow> int \<Rightarrow> call list \<Rightarrow> (int \<times> call list) option" where
  "render_loop d f k i tr =
     (case loop_body f i tr of (i', tr1) \<Rightarrow>
        (case loop_cond d k tr1 of (c, tr2) \<Rightarrow>
           if c then render_loop d f (Suc k) i' tr2 else Some (i', tr2)))"

subsection \<open>\<^verbatim>\<open>main\<close> (lines 179--324)\<close>

text \<open>
  \<open>main\<close> is the initialisation with its three early returns (lines 205--233);
  \<open>main_setup\<close> is lines 235--298, from the first OpenGL call to the clear before
  the loop, and returns the locals that own an OpenGL object; \<open>main_shutdown\<close> is lines
  315--324: the three explicit deletes, \<^verbatim>\<open>glfwTerminate\<close>, and then, at
  \<^verbatim>\<open>return 0\<close>, the destructors of \<^verbatim>\<open>frame\<close>, \<^verbatim>\<open>program\<close>,
  \<^verbatim>\<open>frag_shader\<close> and \<^verbatim>\<open>vtx_shader\<close>, in the reverse order of their
  construction.

  An exception thrown by a shader constructor is caught nowhere, so the program ends in
  \<^verbatim>\<open>std::terminate\<close>: the outcome \<open>Uncaught\<close>, with the trace up to the throw.
  (Whether the stack is unwound before termination is left to the implementation; no
  destructor is recorded.) The text written to standard output is not recorded.
\<close>

record main_locals =
  vao :: GLuint
  vtx_shader :: shader_base
  frag_shader :: shader_base
  program :: shader_program
  vbo :: GLuint
  ebo :: GLuint
  frame :: framebuffer

datatype outcome = Returned int | Uncaught exn

definition main_setup :: "driver \<Rightarrow> call list \<Rightarrow> (exn + main_locals) \<times> call list" where
  "main_setup d tr =
     (let tr1 = tr @ [Draw (GlGetString ''GL_VENDOR''), Draw (GlGetString ''GL_RENDERER''),
                      Draw (GlGetString ''GL_VERSION''), Glfw GlfwSetInputMode];
          a = glGenVertexArrays d;
          tr2 = tr1 @ [Buffer (GlGenVertexArrays a), Buffer (GlBindVertexArray a)]
      in case vertex_shader d vertex_prog tr2 of
           (Inl x, tr3) \<Rightarrow> (Inl x, tr3)
         | (Inr vs, tr3) \<Rightarrow>
             (case fragment_shader d fragment_prog tr3 of
                (Inl x, tr4) \<Rightarrow> (Inl x, tr4)
              | (Inr fs, tr4) \<Rightarrow>
                  (let (p, tr5) = shader_program_ctor d tr4;
                       tr6 = use p (link p (attach_fragment p fs (attach_vertex p vs tr5)));
                       b = glGenBuffers_vbo d;
                       tr7 = tr6 @ [Buffer (GlGenBuffers b), Buffer (GlBindBuffer GL_ARRAY_BUFFER b),
                                    Buffer (GlBufferData GL_ARRAY_BUFFER 32)];
                       (pos_attr, tr8) = attrib d p ''position'' tr7;
                       tr9 = tr8 @ [Buffer (GlVertexAttribPointer pos_attr 2),
                                    Buffer (GlEnableVertexAttribArray pos_attr)];
                       e = glGenBuffers_ebo d;
                       tr10 = tr9 @ [Buffer (GlGenBuffers e),
                                     Buffer (GlBindBuffer GL_ELEMENT_ARRAY_BUFFER e),
                                     Buffer (GlBufferData GL_ELEMENT_ARRAY_BUFFER 24)];
                       (dim_attr, tr11) = uniform d p ''dims'' tr10;
                       tr12 = tr11 @ [Program (GlUniform2f dim_attr width height)];
                       (f, tr13) = framebuffer_ctor d width height tr12;
                       tr14 = framebuffer_bind f tr13;
                       tr15 = tr14 @ [Draw GlClearColor, Draw GlClear]
                   in (Inr \<lparr> vao = a, vtx_shader = vs, frag_shader = fs, program = p,
                             vbo = b, ebo = e, frame = f \<rparr>, tr15))))"

definition main_shutdown :: "main_locals \<Rightarrow> call list \<Rightarrow> call list" where
  "main_shutdown l tr =
     (let tr1 = tr @ [Buffer (GlDeleteBuffers (ebo l)), Buffer (GlDeleteBuffers (vbo l)),
                      Buffer (GlDeleteVertexArrays (vao l)), Glfw GlfwTerminate]
      in shader_base_dtor (vtx_shader l)
           (shader_base_dtor (frag_shader l)
              (shader_program_dtor (program l)
                 (framebuffer_dtor (frame l) tr1))))"

definition main :: "driver \<Rightarrow> (outcome \<times> call list) option" where
  "main d =
     (let tr0 = [OperatorNew (alloc_elems images), Glfw GlfwInit]
      in if glfwInit d = 0
         then Some (Returned (- 1),
                    tr0 @ [WriteStderr (''Failed to initialize GLFW'' @ [CHR 0x0A]), Getchar])
         else
           (let tr1 = tr0 @ [Glfw (GlfwWindowHint ''GLFW_SAMPLES'' ''4''),
                             Glfw (GlfwWindowHint ''GLFW_CONTEXT_VERSION_MAJOR'' ''3''),
                             Glfw (GlfwWindowHint ''GLFW_CONTEXT_VERSION_MINOR'' ''3''),
                             Glfw (GlfwWindowHint ''GLFW_OPENGL_FORWARD_COMPAT'' ''GL_TRUE''),
                             Glfw (GlfwWindowHint ''GLFW_OPENGL_PROFILE'' ''GLFW_OPENGL_CORE_PROFILE''),
                             Glfw (GlfwCreateWindow width height ''Flipbook'')]
            in case glfwCreateWindow d of
                 None \<Rightarrow>
                   Some (Returned (- 1),
                         tr1 @ [WriteStderr (''Failed to open GLFW window. If you have an Intel GPU, they are not 3.3 compatible. Try the 2.1 version of the tutorials.'' @ [CHR 0x0A]),
                                Glfw GlfwTerminate])
               | Some window \<Rightarrow>
                   (let tr2 = tr1 @ [Glfw GlfwMakeContextCurrent, Draw GlewInit]
                    in if glewInit d \<noteq> GLEW_OK
                       then Some (Returned (- 1),
                                  tr2 @ [WriteStderr (''Failed to initialize GLEW'' @ [CHR 0x0A]),
                                         Glfw GlfwTerminate])
                       else
                         (case main_setup d tr2 of
                            (Inl x, tr3) \<Rightarrow> Some (Uncaught x, tr3)
                          | (Inr l, tr3) \<Rightarrow>
                              map_option (\<lambda>(i, tr4). (Returned 0, main_shutdown l tr4))
                                (render_loop d (frame l) 0 0 tr3)))))"

subsection \<open>Observations on a run\<close>

text \<open>
  The notions the properties below are stated with. \<open>exit_requested d k\<close>: at the
  \<open>k\<close>-th evaluation of the loop condition the escape key is pressed or the window
  asks to be closed. \<open>iterations d f k n i tr\<close>: the counter and the trace after \<open>n\<close>
  more iterations of the loop, whatever the condition says. \<open>counter_after i n\<close>: the
  counter after \<open>n\<close> increments.
\<close>

definition exit_requested :: "driver \<Rightarrow> nat \<Rightarrow> bool" where
  "exit_requested d k \<longleftrightarrow> glfwGetKey d k = GLFW_PRESS \<or> glfwWindowShouldClose d k \<noteq> 0"

fun iterations ::
  "driver \<Rightarrow> framebuffer \<Rightarrow> nat \<Rightarrow> nat \<Rightarrow> int \<Rightarrow> call list \<Rightarrow> int \<times> call list" where
  "iterations d f k 0 i tr = (i, tr)"
| "iterations d f k (Suc n) i tr =
     (case loop_body f i tr of (i', tr1) \<Rightarrow>
        iterations d f (Suc k) n i' (snd (loop_cond d k tr1)))"

primrec counter_after :: "int \<Rightarrow> nat \<Rightarrow> int" where
  "counter_after i 0 = i"
| "counter_after i (Suc n) = counter_after (int32 (i + 1)) n"

text \<open>
  What an upload reads: the elements from \<open>off\<close> up to, not including,
  \<open>off + fb_width f * fb_height f\<close>. \<open>in_allocation\<close>: the range lies inside the
  array that was allocated. \<open>uploaded_pixels\<close>: the elements read, when all of them
  are elements the generator stored.
\<close>

definition upload_range :: "framebuffer \<Rightarrow> int \<Rightarrow> int \<times> int" where
  "upload_range f off = (off, off + fb_width f * fb_height f)"

definition in_allocation :: "image_buffer \<Rightarrow> int \<times> int \<Rightarrow> bool" where
  "in_allocation b r \<longleftrightarrow> 0 \<le> fst r \<and> fst r \<le> snd r \<and> snd r \<le> alloc_elems b"

definition uploaded_pixels :: "image_buffer \<Rightarrow> framebuffer \<Rightarrow> int \<Rightarrow> pixel list option" where
  "uploaded_pixels b f off =
     (if 0 \<le> off \<and> 0 \<le> fb_width f * fb_height f
         \<and> off + fb_width f * fb_height f \<le> int (length (written b))
      then Some (take (nat (fb_width f * fb_height f)) (drop (nat off) (written b)))
      else None)"

text \<open>The events that create an OpenGL object, those that release one, and the uploads.\<close>

fun is_create :: "call \<Rightarrow> bool" where
  "is_create (Shader (GlCreateShader t h)) = True"
| "is_create (Program (GlCreateProgram h)) = True"
| "is_create (Buffer (GlGenVertexArrays h)) = True"
| "is_create (Buffer (GlGenBuffers h)) = True"
| "is_create (Texture (GlGenTextures h)) = True"
| "is_create c = False"

fun is_release :: "call \<Rightarrow> bool" where
  "is_release (Shader (GlDeleteShader h)) = True"
| "is_release (Program (GlDeleteProgram h)) = True"
| "is_release (Buffer (GlDeleteVertexArrays h)) = True"
| "is_release (Buffer (GlDeleteBuffers h)) = True"
| "is_release (Texture (GlDeleteTextures h)) = True"
| "is_release c = False"

fun is_upload :: "call \<Rightarrow> bool" where
  "is_upload (Texture (GlTexImage2D w h off)) = True"
| "is_upload c = False"

fun is_alloc :: "call \<Rightarrow> bool" where
  "is_alloc (OperatorNew n) = True"
| "is_alloc c = False"

text \<open>
  \<open>compiles d t\<close>: the shader of type \<open>t\<close> that the driver creates reports a
  successful compilation. \<open>init_ok d\<close>: none of the three checks of lines 206--233
  fails. \<open>the_frame d\<close> and \<open>the_locals d\<close>: the texture wrapper and the locals
  \<^verbatim>\<open>main\<close> holds when both shaders compile.
\<close>

definition compiles :: "driver \<Rightarrow> shader_type \<Rightarrow> bool" where
  "compiles d t \<longleftrightarrow> glGetShaderiv d (glCreateShader d t) = GL_TRUE"

definition init_ok :: "driver \<Rightarrow> bool" where
  "init_ok d \<longleftrightarrow> glfwInit d \<noteq> 0 \<and> glfwCreateWindow d \<noteq> None \<and> glewInit d = GLEW_OK"

definition the_frame :: "driver \<Rightarrow> framebuffer" where
  "the_frame d = \<lparr> fb_handle = glGenTextures d, fb_width = width, fb_height = height \<rparr>"

definition the_locals :: "driver \<Rightarrow> main_locals" where
  "the_locals d =
     \<lparr> vao = glGenVertexArrays d,
       vtx_shader = \<lparr> prog_type = GL_VERTEX_SHADER, shader_obj = glCreateShader d GL_VERTEX_SHADER \<rparr>,
       frag_shader = \<lparr> prog_type = GL_FRAGMENT_SHADER, shader_obj = glCreateShader d GL_FRAGMENT_SHADER \<rparr>,
       program = \<lparr> handle = glCreateProgram d \<rparr>,
       vbo = glGenBuffers_vbo d,
       ebo = glGenBuffers_ebo d,
       frame = the_frame d \<rparr>"


subsection \<open>Concrete drivers\<close>

text \<open>
  Drivers at which the properties below are instantiated. \<open>demo_driver\<close> accepts
  everything and asks for the window to be closed at the third evaluation of the loop
  condition; \<open>escape_driver\<close> reports the escape key at the second evaluation;
  \<open>endless_driver\<close> never asks for an exit; \<open>ten_driver\<close> asks for the window to
  be closed at the eleventh evaluation, \<open>late_driver\<close> at evaluation 2147483648
  (counted from 0). \<open>rejecting_driver\<close> rejects the fragment shader with a one-line
  log; \<open>silent_driver\<close> rejects every shader and keeps an empty log.
\<close>

definition demo_driver :: driver where
  "demo_driver =
     \<lparr> glfwInit = 1,
       glfwCreateWindow = Some 1,
       glewInit = 0,
       glGenVertexArrays = 1,
       glCreateShader = (\<lambda>t. case t of GL_VERTEX_SHADER \<Rightarrow> 1 | GL_FRAGMENT_SHADER \<Rightarrow> 2),
       glGetShaderiv = (\<lambda>h. 1),
       glGetShaderInfoLog = (\<lambda>h. []),
       glCreateProgram = 3,
       glGetAttribLocation = (\<lambda>name. 0),
       glGetUniformLocation = (\<lambda>name. 0),
       glGenBuffers_vbo = 1,
       glGenBuffers_ebo = 2,
       glGenTextures = 1,
       glfwGetKey = (\<lambda>k. 0),
       glfwWindowShouldClose = (\<lambda>k. if k = 2 then 1 else 0) \<rparr>"

definition escape_driver :: driver where
  "escape_driver =
     demo_driver \<lparr> glfwGetKey := (\<lambda>k. if k = 1 then 1 else 0),
                   glfwWindowShouldClose := (\<lambda>k. 0) \<rparr>"

definition endless_driver :: driver where
  "endless_driver = demo_driver \<lparr> glfwWindowShouldClose := (\<lambda>k. 0) \<rparr>"

definition ten_driver :: driver where
  "ten_driver = demo_driver \<lparr> glfwWindowShouldClose := (\<lambda>k. if k = 10 then 1 else 0) \<rparr>"

definition late_driver :: driver where
  "late_driver =
     demo_driver \<lparr> glfwWindowShouldClose := (\<lambda>k. if k = 2147483648 then 1 else 0) \<rparr>"

definition rejecting_driver :: driver where
  "rejecting_driver =
     demo_driver \<lparr> glGetShaderiv := (\<lambda>h. if h = 2 then 0 else 1),
                   glGetShaderInfoLog := (\<lambda>h. ''0:1(1): error: syntax error'') \<rparr>"

definition silent_driver :: driver where
  "silent_driver = demo_driver \<lparr> glGetShaderiv := (\<lambda>h. 0) \<rparr>"


section \<open>Properties\<close>

subsection \<open>The generator's loops\<close>

declare x_loop.simps [simp del] y_loop.simps [simp del] i_loop.simps [simp del]

lemma int32_id: "- (2 ^ 31) \<le> v \<Longrightarrow> v < 2 ^ 31 \<Longrightarrow> int32 v = v"
  unfolding int32_def by (simp add: signed_take_bit_int_eq_self)

lemma x_loop_length: "x \<le> w \<Longrightarrow> length (x_loop w bar barw x buf) = length buf + nat (w - x)"
proof (induction w bar barw x buf rule: x_loop.induct)
  case (1 w bar barw x buf)
  show ?case
  proof (cases "x < w")
    case True
    with 1 show ?thesis by (subst x_loop.simps) (simp add: nat_diff_distrib)
  next
    case False
    with 1 show ?thesis by (subst x_loop.simps) simp
  qed
qed

lemma x_loop_old: "k < length buf \<Longrightarrow> x_loop w bar barw x buf ! k = buf ! k"
proof (induction w bar barw x buf rule: x_loop.induct)
  case (1 w bar barw x buf)
  show ?case
  proof (cases "x < w")
    case True
    with 1 show ?thesis by (subst x_loop.simps) (simp add: nth_append)
  next
    case False
    then show ?thesis by (subst x_loop.simps) simp
  qed
qed

lemma x_loop_new:
  "x \<le> c \<Longrightarrow> c < w \<Longrightarrow>
   x_loop w bar barw x buf ! (length buf + nat (c - x)) = bar_pixel bar barw c"
proof (induction w bar barw x buf rule: x_loop.induct)
  case (1 w bar barw x buf)
  from 1(2,3) have xw: "x < w" by simp
  show ?case
  proof (cases "x = c")
    case True
    have "x_loop w bar barw x buf ! length buf
          = x_loop w bar barw (x + 1) (buf @ [bar_pixel bar barw x]) ! length buf"
      using xw by (subst x_loop.simps) simp
    also have "\<dots> = (buf @ [bar_pixel bar barw x]) ! length buf"
      by (rule x_loop_old) simp
    finally show ?thesis using True by simp
  next
    case False
    with 1(2) have lt: "x + 1 \<le> c" by simp
    have eq: "length buf + nat (c - x) = length (buf @ [bar_pixel bar barw x]) + nat (c - (x + 1))"
      using lt by simp
    have "x_loop w bar barw x buf ! (length buf + nat (c - x))
        = x_loop w bar barw (x + 1) (buf @ [bar_pixel bar barw x]) ! (length buf + nat (c - x))"
      using xw by (subst x_loop.simps) simp
    also have "\<dots> = bar_pixel bar barw c"
      unfolding eq using 1(1)[OF xw lt 1(3)] .
    finally show ?thesis .
  qed
qed


lemma y_loop_length:
  "0 \<le> w \<Longrightarrow> y \<le> h \<Longrightarrow>
   length (y_loop w h bar barw y buf) = length buf + nat (h - y) * nat w"
proof (induction w h bar barw y buf rule: y_loop.induct)
  case (1 w h bar barw y buf)
  show ?case
  proof (cases "y < h")
    case True
    have "nat (h - y) = Suc (nat (h - (y + 1)))" using True by simp
    with 1 True show ?thesis
      by (subst y_loop.simps) (simp add: x_loop_length)
  next
    case False
    with 1 show ?thesis by (subst y_loop.simps) simp
  qed
qed

lemma y_loop_old: "k < length buf \<Longrightarrow> y_loop w h bar barw y buf ! k = buf ! k"
proof (induction w h bar barw y buf rule: y_loop.induct)
  case (1 w h bar barw y buf)
  show ?case
  proof (cases "y < h")
    case True
    have "k < length (x_loop w bar barw 0 buf)"
    proof (cases "0 \<le> w")
      case True
      then show ?thesis using 1(2) by (simp add: x_loop_length)
    next
      case False
      then show ?thesis using 1(2) by (subst x_loop.simps) simp
    qed
    with 1 True show ?thesis by (subst y_loop.simps) (simp add: x_loop_old)
  next
    case False
    then show ?thesis by (subst y_loop.simps) simp
  qed
qed

lemma y_loop_new:
  "y \<le> r \<Longrightarrow> r < h \<Longrightarrow> 0 \<le> c \<Longrightarrow> c < w \<Longrightarrow>
   y_loop w h bar barw y buf ! (length buf + nat (r - y) * nat w + nat c) = bar_pixel bar barw c"
proof (induction w h bar barw y buf rule: y_loop.induct)
  case (1 w h bar barw y buf)
  from 1(2,3) have yh: "y < h" by simp
  from 1(4,5) have w0: "0 \<le> w" by simp
  let ?row = "x_loop w bar barw 0 buf"
  have len: "length ?row = length buf + nat w" using w0 by (simp add: x_loop_length)
  have step: "y_loop w h bar barw y buf = y_loop w h bar barw (y + 1) ?row"
    using yh by (subst y_loop.simps) simp
  show ?case
  proof (cases "y = r")
    case True
    have "nat c < nat w" using 1(4,5) by simp
    then have "length buf + nat c < length ?row" using len by simp
    then have "y_loop w h bar barw (y + 1) ?row ! (length buf + nat c) = ?row ! (length buf + nat c)"
      by (rule y_loop_old)
    also have "\<dots> = bar_pixel bar barw c"
      using x_loop_new[of 0 c w bar barw buf] 1(4,5) by simp
    finally show ?thesis using True step by simp
  next
    case False
    with 1(2) have lt: "y + 1 \<le> r" by simp
    have "nat (r - y) = Suc (nat (r - (y + 1)))" using lt by simp
    then have eq: "length buf + nat (r - y) * nat w + nat c
                 = length ?row + nat (r - (y + 1)) * nat w + nat c"
      using len by simp
    show ?thesis
      unfolding step eq using 1(1)[OF yh lt 1(3) 1(4) 1(5)] .
  qed
qed

lemma i_loop_length:
  "0 \<le> w \<Longrightarrow> 0 \<le> h \<Longrightarrow> i \<le> n \<Longrightarrow>
   length (i_loop w h n i buf) = length buf + nat (n - i) * (nat h * nat w)"
proof (induction w h n i buf rule: i_loop.induct)
  case (1 w h n i buf)
  show ?case
  proof (cases "i < n")
    case True
    have "nat (n - i) = Suc (nat (n - (i + 1)))" using True by simp
    with 1 True show ?thesis
      by (subst i_loop.simps) (simp add: y_loop_length)
  next
    case False
    with 1 show ?thesis by (subst i_loop.simps) simp
  qed
qed

lemma i_loop_old:
  "0 \<le> w \<Longrightarrow> 0 \<le> h \<Longrightarrow> k < length buf \<Longrightarrow> i_loop w h n i buf ! k = buf ! k"
proof (induction w h n i buf rule: i_loop.induct)
  case (1 w h n i buf)
  show ?case
  proof (cases "i < n")
    case True
    have "k < length (y_loop w h (bar_of w n i) (barw_of w n) 0 buf)"
      using 1(2,3,4) by (simp add: y_loop_length)
    with 1 True show ?thesis by (subst i_loop.simps) (simp add: y_loop_old)
  next
    case False
    then show ?thesis by (subst i_loop.simps) simp
  qed
qed

lemma i_loop_new:
  "i \<le> f \<Longrightarrow> f < n \<Longrightarrow> 0 \<le> r \<Longrightarrow> r < h \<Longrightarrow> 0 \<le> c \<Longrightarrow> c < w \<Longrightarrow>
   i_loop w h n i buf ! (length buf + nat (f - i) * (nat h * nat w) + nat r * nat w + nat c)
     = bar_pixel (bar_of w n f) (barw_of w n) c"
proof (induction w h n i buf rule: i_loop.induct)
  case (1 w h n i buf)
  from 1(2,3) have lt: "i < n" by simp
  from 1(6,7) have w0: "0 \<le> w" by simp
  from 1(4,5) have h0: "0 \<le> h" by simp
  let ?frm = "y_loop w h (bar_of w n i) (barw_of w n) 0 buf"
  have len: "length ?frm = length buf + nat h * nat w"
    using w0 h0 by (simp add: y_loop_length)
  have step: "i_loop w h n i buf = i_loop w h n (i + 1) ?frm"
    using lt by (subst i_loop.simps) simp
  show ?case
  proof (cases "i = f")
    case True
    have "nat r * nat w + nat c < nat h * nat w"
    proof -
      have "nat c < nat w" using 1(6,7) by simp
      then have "nat r * nat w + nat c < Suc (nat r) * nat w" by simp
      also have "\<dots> \<le> nat h * nat w"
        using 1(4,5) by (intro mult_le_mono1) simp
      finally show ?thesis .
    qed
    then have "length buf + nat r * nat w + nat c < length ?frm" using len by simp
    then have "i_loop w h n (i + 1) ?frm ! (length buf + nat r * nat w + nat c)
             = ?frm ! (length buf + nat r * nat w + nat c)"
      using w0 h0 by (intro i_loop_old)
    also have "\<dots> = bar_pixel (bar_of w n i) (barw_of w n) c"
      using y_loop_new[of 0 r h c w "bar_of w n i" "barw_of w n" buf] 1(4,5,6,7) by simp
    finally show ?thesis using True step by simp
  next
    case False
    with 1(2) have le: "i + 1 \<le> f" by simp
    have "nat (f - i) = Suc (nat (f - (i + 1)))" using le by simp
    then have eq: "length buf + nat (f - i) * (nat h * nat w) + nat r * nat w + nat c
                 = length ?frm + nat (f - (i + 1)) * (nat h * nat w) + nat r * nat w + nat c"
      using len by simp
    show ?thesis
      unfolding step eq using 1(1)[OF lt le 1(3) 1(4) 1(5) 1(6) 1(7)] .
  qed
qed

lemma sdiv_nonneg: "0 \<le> k \<Longrightarrow> 0 < l \<Longrightarrow> (k :: int) sdiv l = k div l"
  by (cases "k = 0") (simp_all add: signed_divide_int_def)

lemma pixel_index:
  assumes "0 \<le> i" "0 \<le> y" "0 \<le> x" "0 \<le> w" "0 \<le> h"
  shows "nat (i * w * h + y * w + x) = nat i * (nat h * nat w) + nat y * nat w + nat x"
proof -
  have "int (nat i * (nat h * nat w) + nat y * nat w + nat x) = i * w * h + y * w + x"
    using assms by (simp add: algebra_simps)
  then show ?thesis by (metis nat_int)
qed

lemma pixel_index_bound:
  assumes "x < (w :: nat)" "y < h" "i < n"
  shows "i * (h * w) + y * w + x < n * (h * w)"
proof -
  have "y * w + x < Suc y * w" using assms(1) by simp
  also have "\<dots> \<le> h * w" using assms(2) by (intro mult_le_mono1) simp
  finally have "i * (h * w) + (y * w + x) < Suc i * (h * w)" by simp
  also have "\<dots> \<le> n * (h * w)" using assms(3) by (intro mult_le_mono1) simp
  finally show ?thesis by (simp add: add.assoc)
qed

lemma gen_pixel:
  assumes "0 \<le> i" "i < n" "0 \<le> y" "y < h" "0 \<le> x" "x < w"
  shows "pixel_at (i_loop w h n 0 []) w h i y x = Some (bar_pixel (bar_of w n i) (barw_of w n) x)"
proof -
  have w0: "0 \<le> w" and h0: "0 \<le> h" and n0: "0 \<le> n" using assms by simp_all
  let ?k = "i * w * h + y * w + x"
  have idx: "nat ?k = nat i * (nat h * nat w) + nat y * nat w + nat x"
    by (rule pixel_index[OF assms(1,3,5) w0 h0])
  have len: "length (i_loop w h n 0 []) = nat n * (nat h * nat w)"
    using i_loop_length[OF w0 h0 n0, of "[]"] by simp
  have "nat ?k < nat n * (nat h * nat w)"
    unfolding idx using assms by (intro pixel_index_bound) simp_all
  then have lt: "nat ?k < length (i_loop w h n 0 [])" using len by simp
  have k0: "0 \<le> ?k" using assms w0 h0 by simp
  have "i_loop w h n 0 [] ! nat ?k
      = i_loop w h n 0 [] ! (length ([] :: pixel list) + nat (i - 0) * (nat h * nat w) + nat y * nat w + nat x)"
    using idx by simp
  also have "\<dots> = bar_pixel (bar_of w n i) (barw_of w n) x"
    using assms by (intro i_loop_new) simp_all
  finally have "i_loop w h n 0 [] ! nat ?k = bar_pixel (bar_of w n i) (barw_of w n) x" .
  moreover have "?k < int (length (i_loop w h n 0 []))" using lt k0 by linarith
  ultimately show ?thesis
    unfolding pixel_at_def Let_def using k0 by simp
qed

lemma bar_of_program:
  assumes "0 \<le> i" "i < NUMIMAGES"
  shows "bar_of width NUMIMAGES i = width * i div NUMIMAGES"
proof -
  have "int32 (width * i) = width * i"
    using assms by (intro int32_id) (simp_all add: width_def NUMIMAGES_def)
  then show ?thesis
    using assms by (simp add: bar_of_def sdiv_nonneg NUMIMAGES_def width_def)
qed

lemma barw_of_program: "barw_of width NUMIMAGES = width div NUMIMAGES"
  by (simp add: barw_of_def sdiv_nonneg NUMIMAGES_def width_def)

lemma bar_pixel_program:
  assumes "0 \<le> i" "i < NUMIMAGES"
  shows "bar_pixel (bar_of width NUMIMAGES i) (barw_of width NUMIMAGES) x
       = (if width * i div NUMIMAGES \<le> x \<and> x \<le> width * i div NUMIMAGES + width div NUMIMAGES
          then 0xffffffff else 0)"
proof -
  have b0: "0 \<le> width * i div NUMIMAGES" and b1: "width * i div NUMIMAGES \<le> 921"
    using assms by (simp_all add: width_def NUMIMAGES_def)
  have "int32 (width * i div NUMIMAGES + width div NUMIMAGES)
        = width * i div NUMIMAGES + width div NUMIMAGES"
    using b0 b1 by (intro int32_id) (simp_all add: width_def NUMIMAGES_def)
  then show ?thesis
    unfolding bar_pixel_def bar_of_program[OF assms] barw_of_program by simp
qed

lemma program_pixel:
  assumes "0 \<le> i" "i < NUMIMAGES" "0 \<le> y" "y < height" "0 \<le> x" "x < width"
  shows "pixel_at (written images) width height i y x
       = Some (if width * i div NUMIMAGES \<le> x \<and> x \<le> width * i div NUMIMAGES + width div NUMIMAGES
               then 0xffffffff else 0)"
  unfolding images_def init_images_def
  using gen_pixel[OF assms] bar_pixel_program[OF assms(1,2)] by simp

lemma written_images_length: "int (length (written images)) = NUMIMAGES * (height * width)"
proof -
  have "length (i_loop width height NUMIMAGES 0 [])
      = nat NUMIMAGES * (nat height * nat width)"
    using i_loop_length[of width height 0 NUMIMAGES "[]"]
    by (simp add: width_def height_def NUMIMAGES_def)
  then show ?thesis
    by (simp add: images_def init_images_def width_def height_def NUMIMAGES_def)
qed

lemma int32_numeral_simps: "int32 v = take_bit 32 (v + 2 ^ 31) - 2 ^ 31"
  by (simp add: int32_def signed_take_bit_eq_take_bit_shift)

lemma alloc_elems_images: "alloc_elems images = 31457280"
  by (simp add: images_def init_images_def width_def height_def NUMIMAGES_def
        int32_numeral_simps)

lemma white_at_iff:
  assumes "0 \<le> i" "i < NUMIMAGES" "0 \<le> y" "y < height"
  shows "white_at i y x \<longleftrightarrow>
           width * i div NUMIMAGES \<le> x \<and> x \<le> width * i div NUMIMAGES + width div NUMIMAGES"
proof (cases "0 \<le> x \<and> x < width")
  case True
  then have x: "0 \<le> x" "x < width" by simp_all
  show ?thesis
    unfolding white_at_def program_pixel[OF assms x] using x by simp
next
  case False
  define B where "B = width * i div NUMIMAGES"
  have b0: "0 \<le> B" and b1: "B \<le> 921"
    unfolding B_def using assms by (simp_all add: width_def NUMIMAGES_def)
  have w: "width div NUMIMAGES = 102" by (simp add: width_def NUMIMAGES_def)
  have nw: "\<not> white_at i y x" using False by (auto simp add: white_at_def)
  have "x < 0 \<or> 1024 \<le> x" using False by (simp add: width_def) linarith
  then have "\<not> (B \<le> x \<and> x \<le> B + 102)" using b0 b1 by linarith
  with nw show ?thesis unfolding B_def[symmetric] w by simp
qed

subsection \<open>The bar of every image\<close>

text \<open>
  C1. For every image \<open>i\<close> of the \<open>NUMIMAGES\<close> images, every row \<open>y\<close> and every column
  \<open>x\<close> of the canvas, the generator stores opaque white (\<open>0xffffffff\<close>) at column
  \<open>x\<close> exactly when \<open>width * i div NUMIMAGES \<le> x \<le> width * i div NUMIMAGES + width div
  NUMIMAGES\<close>, and transparent black (\<open>0\<close>) otherwise. The program's geometry is
  1024 by 768 with 10 images, so the bar of image 0 is the columns 0 to 102 and the bar
  of image 9 the columns 921 to 1023.
\<close>

theorem C1_bar_columns:
  assumes "0 \<le> i" "i < NUMIMAGES" "0 \<le> y" "y < height" "0 \<le> x" "x < width"
  shows "pixel_at (written images) width height i y x
           = Some (if width * i div NUMIMAGES \<le> x
                      \<and> x \<le> width * i div NUMIMAGES + width div NUMIMAGES
                   then 0xffffffff else 0)
         \<and> width = 1024 \<and> height = 768 \<and> NUMIMAGES = 10
         \<and> (i = 0 \<longrightarrow>
              (pixel_at (written images) width height i y x = Some 0xffffffff
                 \<longleftrightarrow> 0 \<le> x \<and> x \<le> 102)
            \<and> (pixel_at (written images) width height i y x = Some 0
                 \<longleftrightarrow> \<not> (0 \<le> x \<and> x \<le> 102)))
         \<and> (i = 9 \<longrightarrow>
              (pixel_at (written images) width height i y x = Some 0xffffffff
                 \<longleftrightarrow> 921 \<le> x \<and> x \<le> 1023)
            \<and> (pixel_at (written images) width height i y x = Some 0
                 \<longleftrightarrow> \<not> (921 \<le> x \<and> x \<le> 1023)))"
proof -
  note px = program_pixel[OF assms]
  have k: "width = 1024" "height = 768" "NUMIMAGES = 10"
    by (simp_all add: width_def height_def NUMIMAGES_def)
  have f0: "i = 0 \<Longrightarrow> width * i div NUMIMAGES = 0"
    and f9: "i = 9 \<Longrightarrow> width * i div NUMIMAGES = 921"
    and bw: "width div NUMIMAGES = 102"
    by (simp_all add: k)
  show ?thesis
    using px k f0 f9 bw by (auto split: if_splits)
qed

theorem C1_bar_columns_witness:
  "pixel_at (written images) width height 9 767 921 = Some 0xffffffff
   \<and> pixel_at (written images) width height 9 767 920 = Some 0
   \<and> pixel_at (written images) width height 0 0 102 = Some 0xffffffff
   \<and> pixel_at (written images) width height 0 0 103 = Some 0
   \<and> pixel_at (written images) width height 3 5 400 = Some 0xffffffff"
proof -
  have a: "pixel_at (written images) width height 9 767 921 = Some 0xffffffff"
    using C1_bar_columns[of 9 767 921] by (simp add: width_def height_def NUMIMAGES_def)
  have b: "pixel_at (written images) width height 9 767 920 = Some 0"
    using C1_bar_columns[of 9 767 920] by (simp add: width_def height_def NUMIMAGES_def)
  have c: "pixel_at (written images) width height 0 0 102 = Some 0xffffffff"
    using C1_bar_columns[of 0 0 102] by (simp add: width_def height_def NUMIMAGES_def)
  have d: "pixel_at (written images) width height 0 0 103 = Some 0"
    using C1_bar_columns[of 0 0 103] by (simp add: width_def height_def NUMIMAGES_def)
  have e: "pixel_at (written images) width height 3 5 400 = Some 0xffffffff"
    using C1_bar_columns[of 3 5 400] by (simp add: width_def height_def NUMIMAGES_def)
  show ?thesis using a b c d e by simp
qed

text \<open>
  C9. Both ends of the bar are inclusive, so the bar of an image is \<open>width div NUMIMAGES + 1\<close>
  columns wide, 103 and not 102: in the program no bar is cut by the right edge (the
  last one ends at column 1023), so this holds for every image. Whenever
  \<open>bar i + barw\<close> equals \<open>bar (i + 1)\<close>, that column is the last white column of
  image \<open>i\<close> and the first white column of image \<open>i + 1\<close>, and it is the one column
  the two bars share.
\<close>

theorem C9_bar_width:
  assumes "0 \<le> i" "i < NUMIMAGES" "0 \<le> y" "y < height"
  shows "{x. white_at i y x}
           = {bar_of width NUMIMAGES i .. bar_of width NUMIMAGES i + barw_of width NUMIMAGES}
       \<and> card {x. white_at i y x} = nat (barw_of width NUMIMAGES + 1)
       \<and> barw_of width NUMIMAGES = width div NUMIMAGES
       \<and> nat (barw_of width NUMIMAGES + 1) = 103
       \<and> bar_of width NUMIMAGES i = width * i div NUMIMAGES
       \<and> (i + 1 < NUMIMAGES
            \<and> bar_of width NUMIMAGES i + barw_of width NUMIMAGES = bar_of width NUMIMAGES (i + 1)
            \<longrightarrow> white_at i y (bar_of width NUMIMAGES (i + 1))
              \<and> white_at (i + 1) y (bar_of width NUMIMAGES (i + 1))
              \<and> (\<forall>x. white_at i y x \<longrightarrow> x \<le> bar_of width NUMIMAGES (i + 1))
              \<and> (\<forall>x. white_at (i + 1) y x \<longrightarrow> bar_of width NUMIMAGES (i + 1) \<le> x)
              \<and> {x. white_at i y x} \<inter> {x. white_at (i + 1) y x}
                  = {bar_of width NUMIMAGES (i + 1)})"
proof -
  note b = bar_of_program[OF assms(1,2)] and bw = barw_of_program
  have w102: "width div NUMIMAGES = 102" by (simp add: width_def NUMIMAGES_def)
  have s: "{x. white_at i y x}
           = {bar_of width NUMIMAGES i .. bar_of width NUMIMAGES i + barw_of width NUMIMAGES}"
    unfolding b bw
  proof (rule set_eqI)
    fix x
    show "x \<in> {x. white_at i y x}
         \<longleftrightarrow> x \<in> {width * i div NUMIMAGES .. width * i div NUMIMAGES + width div NUMIMAGES}"
      using white_at_iff[OF assms, of x] by simp
  qed
  have c: "card {x. white_at i y x} = nat (barw_of width NUMIMAGES + 1)"
    unfolding s by (simp add: bw w102)
  have n: "nat (barw_of width NUMIMAGES + 1) = 103" by (simp add: bw w102)
  have o: "i + 1 < NUMIMAGES
            \<and> bar_of width NUMIMAGES i + barw_of width NUMIMAGES = bar_of width NUMIMAGES (i + 1)
            \<longrightarrow> white_at i y (bar_of width NUMIMAGES (i + 1))
              \<and> white_at (i + 1) y (bar_of width NUMIMAGES (i + 1))
              \<and> (\<forall>x. white_at i y x \<longrightarrow> x \<le> bar_of width NUMIMAGES (i + 1))
              \<and> (\<forall>x. white_at (i + 1) y x \<longrightarrow> bar_of width NUMIMAGES (i + 1) \<le> x)
              \<and> {x. white_at i y x} \<inter> {x. white_at (i + 1) y x}
                  = {bar_of width NUMIMAGES (i + 1)}"
  proof
    assume h: "i + 1 < NUMIMAGES
            \<and> bar_of width NUMIMAGES i + barw_of width NUMIMAGES = bar_of width NUMIMAGES (i + 1)"
    have i1: "0 \<le> i + 1" "i + 1 < NUMIMAGES" using assms(1) h by simp_all
    note b1 = bar_of_program[OF i1]
    define B where "B = width * i div NUMIMAGES"
    define B1 where "B1 = width * (i + 1) div NUMIMAGES"
    have w0: "\<And>x. white_at i y x \<longleftrightarrow> B \<le> x \<and> x \<le> B + 102"
      unfolding B_def using white_at_iff[OF assms] w102 by simp
    have w1: "\<And>x. white_at (i + 1) y x \<longleftrightarrow> B1 \<le> x \<and> x \<le> B1 + 102"
      unfolding B1_def using white_at_iff[OF i1 assms(3,4)] w102 by simp
    from h have e: "B + 102 = B1"
      unfolding b b1 bw B_def B1_def w102 by simp
    have p1: "white_at i y B1" unfolding w0 using e by simp
    have p2: "white_at (i + 1) y B1" unfolding w1 by simp
    have p3: "\<forall>x. white_at i y x \<longrightarrow> x \<le> B1" unfolding w0 using e by simp
    have p4: "\<forall>x. white_at (i + 1) y x \<longrightarrow> B1 \<le> x" unfolding w1 by simp
    have p5: "{x. white_at i y x} \<inter> {x. white_at (i + 1) y x} = {B1}"
    proof (rule set_eqI)
      fix x
      show "x \<in> {x. white_at i y x} \<inter> {x. white_at (i + 1) y x} \<longleftrightarrow> x \<in> {B1}"
        using e by (simp add: w0 w1) linarith
    qed
    show "white_at i y (bar_of width NUMIMAGES (i + 1))
              \<and> white_at (i + 1) y (bar_of width NUMIMAGES (i + 1))
              \<and> (\<forall>x. white_at i y x \<longrightarrow> x \<le> bar_of width NUMIMAGES (i + 1))
              \<and> (\<forall>x. white_at (i + 1) y x \<longrightarrow> bar_of width NUMIMAGES (i + 1) \<le> x)
              \<and> {x. white_at i y x} \<inter> {x. white_at (i + 1) y x}
                  = {bar_of width NUMIMAGES (i + 1)}"
      unfolding b1 B1_def[symmetric] by (intro conjI p1 p2 p3 p4 p5)
  qed
  show ?thesis by (intro conjI s c bw n b o)
qed

theorem C9_bar_width_witness:
  "card {x. white_at 0 0 x} = 103
   \<and> {x. white_at 0 0 x} = {0 .. 102}
   \<and> white_at 0 0 102 \<and> white_at 1 0 102
   \<and> {x. white_at 0 0 x} \<inter> {x. white_at 1 0 x} = {102}"
proof -
  have h: "(0 :: int) \<le> 0" "(0 :: int) < NUMIMAGES" "(0 :: int) < height"
    by (simp_all add: NUMIMAGES_def height_def)
  note t = C9_bar_width[OF h(1) h(2) h(1) h(3)]
  have b0: "bar_of width NUMIMAGES 0 = 0" and bw: "barw_of width NUMIMAGES = 102"
    and b1: "bar_of width NUMIMAGES (0 + 1) = 102"
    by (simp_all add: bar_of_def barw_of_def width_def NUMIMAGES_def int32_numeral_simps
          sdiv_nonneg)
  have p: "(0 :: int) + 1 < NUMIMAGES
       \<and> bar_of width NUMIMAGES 0 + barw_of width NUMIMAGES = bar_of width NUMIMAGES (0 + 1)"
    unfolding b0 bw b1 by (simp add: NUMIMAGES_def)
  note o = t[THEN conjunct2, THEN conjunct2, THEN conjunct2, THEN conjunct2, THEN conjunct2,
             THEN mp, OF p]
  have a: "card {x. white_at 0 0 x} = 103"
    using t[THEN conjunct2, THEN conjunct1] t[THEN conjunct2, THEN conjunct2, THEN conjunct2,
      THEN conjunct1] by simp
  have s: "{x. white_at 0 0 x} = {0 .. 102}"
    using t[THEN conjunct1] unfolding b0 bw by simp
  have c: "white_at 0 0 102" using o[THEN conjunct1] unfolding b1 .
  have e: "white_at 1 0 102" using o[THEN conjunct2, THEN conjunct1] unfolding b1 by simp
  have g: "{x. white_at 0 0 x} \<inter> {x. white_at 1 0 x} = {102}"
    using o[THEN conjunct2, THEN conjunct2, THEN conjunct2, THEN conjunct2] unfolding b1 by simp
  show ?thesis by (intro conjI a s c e g)
qed

text \<open>
  C2. The size of the allocation. The array asked of \<^verbatim>\<open>new[]\<close> has
  \<open>width * height * NUMIMAGES * 4 = 31457280\<close> elements of four bytes each, which is
  125829120 bytes, four times \<open>width * height * NUMIMAGES * 4\<close> bytes; the generator
  stores \<open>width * height * NUMIMAGES\<close> elements, which are
  \<open>width * height * NUMIMAGES * 4\<close> bytes.
\<close>

theorem C2_allocation_size:
  "alloc_elems images = width * height * NUMIMAGES * 4
   \<and> width * height * NUMIMAGES * 4 = 31457280
   \<and> alloc_bytes images = 125829120
   \<and> alloc_bytes images = 4 * (width * height * NUMIMAGES * 4)
   \<and> int (length (written images)) = width * height * NUMIMAGES
   \<and> int (length (written images)) * sizeof_unsigned = width * height * NUMIMAGES * 4"
  by (simp add: alloc_bytes_def alloc_elems_images written_images_length sizeof_unsigned_def
        width_def height_def NUMIMAGES_def)

subsection \<open>Shaders and the program\<close>

lemma compile_ok:
  "glGetShaderiv d (shader_obj s) = GL_TRUE \<Longrightarrow>
   compile d s tr
     = (Inr (), tr @ [Shader (GlCompileShader (shader_obj s)), Shader (GlGetShaderiv (shader_obj s))])"
  by (simp add: compile_def Let_def)

lemma compile_fail:
  "glGetShaderiv d (shader_obj s) \<noteq> GL_TRUE \<Longrightarrow>
   compile d s tr
     = (Inl (Runtime_error (take 511 (glGetShaderInfoLog d (shader_obj s)))),
        tr @ [Shader (GlCompileShader (shader_obj s)), Shader (GlGetShaderiv (shader_obj s)),
              Shader (GlGetShaderInfoLog (shader_obj s) 512)])"
  by (auto simp add: compile_def Let_def)

lemma shader_ctor_ok:
  "compiles d t \<Longrightarrow>
   shader_base_ctor d src t tr
     = (Inr \<lparr> prog_type = t, shader_obj = glCreateShader d t \<rparr>,
        tr @ [Shader (GlCreateShader t (glCreateShader d t)),
              Shader (GlShaderSource (glCreateShader d t) src),
              Shader (GlCompileShader (glCreateShader d t)),
              Shader (GlGetShaderiv (glCreateShader d t))])"
  by (simp add: shader_base_ctor_def Let_def compile_ok compiles_def)

lemma shader_ctor_fail:
  "\<not> compiles d t \<Longrightarrow>
   shader_base_ctor d src t tr
     = (Inl (Runtime_error (take 511 (glGetShaderInfoLog d (glCreateShader d t)))),
        tr @ [Shader (GlCreateShader t (glCreateShader d t)),
              Shader (GlShaderSource (glCreateShader d t) src),
              Shader (GlCompileShader (glCreateShader d t)),
              Shader (GlGetShaderiv (glCreateShader d t)),
              Shader (GlGetShaderInfoLog (glCreateShader d t) 512)])"
  by (simp add: shader_base_ctor_def Let_def compile_fail compiles_def)

text \<open>
  C7. Attaching the fragment shader attaches it and then binds the fragment output 0
  to the name \<open>outColor\<close>, whatever was attached before; so in both orders of the two
  attach calls the binding, with that one name, is in the trace before the program is
  linked.
\<close>

theorem C7_fragment_output_name:
  "attach_fragment p fp tr
     = tr @ [Shader (GlAttachShader (handle p) (shader_obj fp)),
             Program (GlBindFragDataLocation (handle p) 0 ''outColor'')]
   \<and> link p (attach_fragment p fp (attach_vertex p vp tr))
     = tr @ [Shader (GlAttachShader (handle p) (shader_obj vp)),
             Shader (GlAttachShader (handle p) (shader_obj fp)),
             Program (GlBindFragDataLocation (handle p) 0 ''outColor''),
             Program (GlLinkProgram (handle p))]
   \<and> link p (attach_vertex p vp (attach_fragment p fp tr))
     = tr @ [Shader (GlAttachShader (handle p) (shader_obj fp)),
             Program (GlBindFragDataLocation (handle p) 0 ''outColor''),
             Shader (GlAttachShader (handle p) (shader_obj vp)),
             Program (GlLinkProgram (handle p))]"
  by (simp add: attach_fragment_def attach_vertex_def shader_attach_def link_def)

subsection \<open>The render loop\<close>

lemma loop_cond_continue: "fst (loop_cond d k tr) \<longleftrightarrow> \<not> exit_requested d k"
  by (simp add: loop_cond_def exit_requested_def)

lemma render_loop_exit:
  "exit_requested d k \<Longrightarrow>
   render_loop d f k i tr = Some (int32 (i + 1), snd (loop_cond d k (snd (loop_body f i tr))))"
  by (subst render_loop.simps)
     (auto simp add: loop_body_def loop_cond_def exit_requested_def Let_def)

lemma render_loop_repeat:
  "\<not> exit_requested d k \<Longrightarrow>
   render_loop d f k i tr
     = render_loop d f (Suc k) (int32 (i + 1)) (snd (loop_cond d k (snd (loop_body f i tr))))"
  by (subst render_loop.simps)
     (auto simp add: loop_body_def loop_cond_def exit_requested_def Let_def)

lemma iterations_Suc:
  "iterations d f k (Suc n) i tr
     = iterations d f (Suc k) n (int32 (i + 1)) (snd (loop_cond d k (snd (loop_body f i tr))))"
  by (simp add: loop_body_def Let_def)

lemma render_loop_first_exit:
  assumes "k \<le> m" "\<forall>j. k \<le> j \<and> j < m \<longrightarrow> \<not> exit_requested d j" "exit_requested d m"
  shows "render_loop d f k i tr = Some (iterations d f k (Suc m - k) i tr)"
  using assms
proof (induction n \<equiv> "m - k" arbitrary: k i tr)
  case 0
  then have km: "k = m" by simp
  have one: "Suc m - m = Suc 0" by simp
  have "iterations d f m (Suc 0) i tr
      = (int32 (i + 1), snd (loop_cond d m (snd (loop_body f i tr))))"
    unfolding iterations_Suc by simp
  then show ?case
    unfolding km one using render_loop_exit[OF 0(4), of f i tr] by simp
next
  case (Suc n)
  from Suc.hyps(2) have lt: "k < m" by simp
  then have ne: "\<not> exit_requested d k" using Suc.prems(2) by simp
  have step: "Suc m - k = Suc (Suc m - Suc k)" using lt by simp
  have n: "n = m - Suc k" using Suc.hyps(2) by simp
  have le: "Suc k \<le> m" using lt by simp
  have all: "\<forall>j. Suc k \<le> j \<and> j < m \<longrightarrow> \<not> exit_requested d j"
    using Suc.prems(2) by simp
  have "render_loop d f (Suc k) (int32 (i + 1)) (snd (loop_cond d k (snd (loop_body f i tr))))
      = Some (iterations d f (Suc k) (Suc m - Suc k) (int32 (i + 1))
                (snd (loop_cond d k (snd (loop_body f i tr)))))"
    by (rule Suc.hyps(1)[OF n le all Suc.prems(3)])
  then show ?case
    by (simp only: render_loop_repeat[OF ne] step iterations_Suc)
qed

lemma render_loop_Some_exit:
  assumes "render_loop d f k i tr = Some r"
  shows "\<exists>m\<ge>k. exit_requested d m"
  using assms
proof (induction rule: render_loop.raw_induct[rotated, consumes 1, case_names step])
  case (step rl d f k i tr r)
  show ?case
  proof (cases "exit_requested d k")
    case True
    then show ?thesis by (intro exI[of _ k]) simp
  next
    case False
    then have c: "fst (loop_cond d k (snd (loop_body f i tr)))"
      by (simp add: loop_cond_continue)
    obtain i' tr1 where b: "loop_body f i tr = (i', tr1)" by (cases "loop_body f i tr")
    obtain cc tr2 where lc: "loop_cond d k tr1 = (cc, tr2)" by (cases "loop_cond d k tr1")
    have cc using c b lc by simp
    with step(2) b lc have "rl d f (Suc k) i' tr2 = Some r" by simp
    from step(1)[OF this] obtain m where "Suc k \<le> m" "exit_requested d m" by auto
    then show ?thesis by (intro exI[of _ m]) simp
  qed
qed

lemma render_loop_never:
  "\<forall>j. \<not> exit_requested d j \<Longrightarrow> render_loop d f k i tr = None"
proof (cases "render_loop d f k i tr")
  case None
  then show ?thesis .
next
  case (Some r)
  assume "\<forall>j. \<not> exit_requested d j"
  with render_loop_Some_exit[OF Some] show ?thesis by auto
qed

lemma render_loop_returns_iff:
  "(\<exists>r. render_loop d f 0 i tr = Some r) \<longleftrightarrow> (\<exists>m. exit_requested d m)"
proof
  assume "\<exists>r. render_loop d f 0 i tr = Some r"
  then obtain r where "render_loop d f 0 i tr = Some r" ..
  from render_loop_Some_exit[OF this] show "\<exists>m. exit_requested d m" by auto
next
  assume "\<exists>m. exit_requested d m"
  then obtain m where m: "exit_requested d m" ..
  define m0 where "m0 = (LEAST m. exit_requested d m)"
  have e: "exit_requested d m0" unfolding m0_def using m by (rule LeastI)
  have "\<forall>j. 0 \<le> j \<and> j < m0 \<longrightarrow> \<not> exit_requested d j"
    unfolding m0_def using not_less_Least by auto
  then have "render_loop d f 0 i tr = Some (iterations d f 0 (Suc m0 - 0) i tr)"
    using e by (intro render_loop_first_exit) simp_all
  then show "\<exists>r. render_loop d f 0 i tr = Some r" by blast
qed

lemma loop_step_trace:
  "snd (loop_cond d k (snd (loop_body f i tr)))
     = tr @ (Texture (GlTexImage2D (fb_width f) (fb_height f) (frame_offset i))
             # Draw (GlDrawElements 6) # Glfw GlfwSwapBuffers # Glfw GlfwPollEvents
             # Glfw GlfwGetKey
             # (if glfwGetKey d k \<noteq> GLFW_PRESS then [Glfw GlfwWindowShouldClose] else []))"
  by (simp add: loop_cond_def loop_body_def framebuffer_draw_def Let_def)

lemma iterations_trace:
  "\<exists>ext. snd (iterations d f k n i tr) = tr @ ext
         \<and> filter is_release ext = [] \<and> filter is_create ext = [] \<and> filter is_alloc ext = []
         \<and> filter is_upload ext
             = map (\<lambda>j. Texture (GlTexImage2D (fb_width f) (fb_height f)
                                     (frame_offset (counter_after i j)))) [0..<n]"
proof (induction n arbitrary: k i tr)
  case 0
  show ?case by simp
next
  case (Suc n)
  let ?tr1 = "snd (loop_cond d k (snd (loop_body f i tr)))"
  define e1 where "e1 = Texture (GlTexImage2D (fb_width f) (fb_height f) (frame_offset i))
             # Draw (GlDrawElements 6) # Glfw GlfwSwapBuffers # Glfw GlfwPollEvents
             # Glfw GlfwGetKey
             # (if glfwGetKey d k \<noteq> GLFW_PRESS then [Glfw GlfwWindowShouldClose] else [])"
  have e1: "?tr1 = tr @ e1" "filter is_release e1 = []" "filter is_create e1 = []"
      "filter is_alloc e1 = []"
      "filter is_upload e1 = [Texture (GlTexImage2D (fb_width f) (fb_height f) (frame_offset i))]"
    unfolding e1_def loop_step_trace by simp_all
  from Suc[of "Suc k" "int32 (i + 1)" ?tr1]
  obtain e2 where e2: "snd (iterations d f (Suc k) n (int32 (i + 1)) ?tr1) = ?tr1 @ e2"
      "filter is_release e2 = []" "filter is_create e2 = []" "filter is_alloc e2 = []"
      "filter is_upload e2
         = map (\<lambda>j. Texture (GlTexImage2D (fb_width f) (fb_height f)
                                 (frame_offset (counter_after (int32 (i + 1)) j)))) [0..<n]"
    by blast
  have m: "map (\<lambda>j. Texture (GlTexImage2D (fb_width f) (fb_height f)
                         (frame_offset (counter_after i j)))) [0..<Suc n]
         = Texture (GlTexImage2D (fb_width f) (fb_height f) (frame_offset i))
           # map (\<lambda>j. Texture (GlTexImage2D (fb_width f) (fb_height f)
                         (frame_offset (counter_after (int32 (i + 1)) j)))) [0..<n]"
    by (simp add: upt_rec[of 0 "Suc n"] map_Suc_upt[symmetric] del: upt_Suc)
  have app: "snd (iterations d f (Suc k) n (int32 (i + 1)) ?tr1) = tr @ e1 @ e2"
    using e2(1) e1(1) by simp
  show ?case
    unfolding iterations_Suc
    by (rule exI[of _ "e1 @ e2"]) (simp add: app e1(2-) e2(2-) m del: upt_Suc)
qed

lemma iterations_counter: "fst (iterations d f k n i tr) = counter_after i n"
  by (induction n arbitrary: k i tr) (simp_all add: loop_body_def Let_def)

lemma render_loop_Some_iterations:
  assumes "render_loop d f k i tr = Some r"
  shows "\<exists>m\<ge>k. exit_requested d m \<and> (\<forall>j. k \<le> j \<and> j < m \<longrightarrow> \<not> exit_requested d j)
            \<and> r = iterations d f k (Suc m - k) i tr"
proof -
  from render_loop_Some_exit[OF assms] obtain m1 where m1: "k \<le> m1" "exit_requested d m1"
    by auto
  define m where "m = (LEAST m. k \<le> m \<and> exit_requested d m)"
  have a: "k \<le> m \<and> exit_requested d m"
    unfolding m_def by (rule LeastI[of _ m1]) (simp add: m1)
  have b: "\<forall>j. k \<le> j \<and> j < m \<longrightarrow> \<not> exit_requested d j"
    unfolding m_def using not_less_Least by auto
  have "render_loop d f k i tr = Some (iterations d f k (Suc m - k) i tr)"
    using a b by (intro render_loop_first_exit) simp_all
  with assms have "r = iterations d f k (Suc m - k) i tr" by simp
  with a b show ?thesis by (intro exI[of _ m]) simp
qed

lemma counter_after_int32: "counter_after (int32 i) n = int32 (i + int n)"
proof (induction n arbitrary: i)
  case 0
  show ?case by simp
next
  case (Suc n)
  have "int32 (int32 i + 1) = int32 (i + 1)"
    unfolding int32_def
    using signed_take_bit_add[of 31 i 1] by simp
  then show ?case using Suc[of "i + 1"] by (simp add: add.assoc)
qed

lemma counter_after_0: "counter_after 0 n = int32 (int n)"
  using counter_after_int32[of 0 n] by (simp add: int32_def)

lemma demo_driver_facts:
  "init_ok demo_driver" "compiles demo_driver GL_VERTEX_SHADER"
  "compiles demo_driver GL_FRAGMENT_SHADER"
  "\<not> exit_requested demo_driver 0" "\<not> exit_requested demo_driver 1"
  "exit_requested demo_driver 2"
  by (simp_all add: demo_driver_def init_ok_def compiles_def exit_requested_def
        GL_TRUE_def GLEW_OK_def GLFW_PRESS_def)

lemma escape_driver_facts:
  "init_ok escape_driver" "compiles escape_driver GL_VERTEX_SHADER"
  "compiles escape_driver GL_FRAGMENT_SHADER"
  "\<not> exit_requested escape_driver 0" "exit_requested escape_driver 1"
  "glfwWindowShouldClose escape_driver 1 = 0"
  by (simp_all add: escape_driver_def demo_driver_def init_ok_def compiles_def
        exit_requested_def GL_TRUE_def GLEW_OK_def GLFW_PRESS_def)

lemma endless_driver_facts:
  "init_ok endless_driver" "compiles endless_driver GL_VERTEX_SHADER"
  "compiles endless_driver GL_FRAGMENT_SHADER" "\<forall>j. \<not> exit_requested endless_driver j"
  by (simp_all add: endless_driver_def demo_driver_def init_ok_def compiles_def
        exit_requested_def GL_TRUE_def GLEW_OK_def GLFW_PRESS_def)

text \<open>
  C3. The loop is left exactly when, at the check that ends an iteration, the escape
  key is read as pressed or the window asks to be closed. The condition lets the loop
  continue exactly when no exit is requested; an iteration at which an exit is
  requested returns, and a close request with the key not pressed is enough; an
  iteration at which none is requested is followed by the next one. Hence the loop
  returns after iteration \<open>m\<close> when \<open>m\<close> is the first iteration at which an exit is
  requested, and never returns when there is none.
\<close>

theorem C3_exit_condition:
  "(exit_requested d k \<longleftrightarrow> glfwGetKey d k = GLFW_PRESS \<or> glfwWindowShouldClose d k \<noteq> 0)
   \<and> (fst (loop_cond d k tr') \<longleftrightarrow> \<not> exit_requested d k)
   \<and> (exit_requested d k \<longrightarrow>
        render_loop d f k i tr
          = Some (int32 (i + 1), snd (loop_cond d k (snd (loop_body f i tr)))))
   \<and> (glfwGetKey d k \<noteq> GLFW_PRESS \<and> glfwWindowShouldClose d k \<noteq> 0 \<longrightarrow>
        render_loop d f k i tr
          = Some (int32 (i + 1),
                  snd (loop_body f i tr) @ [Glfw GlfwGetKey, Glfw GlfwWindowShouldClose]))
   \<and> (\<not> exit_requested d k \<longrightarrow>
        render_loop d f k i tr
          = render_loop d f (Suc k) (int32 (i + 1)) (snd (loop_cond d k (snd (loop_body f i tr)))))
   \<and> ((\<forall>j<m. \<not> exit_requested d j) \<and> exit_requested d m \<longrightarrow>
        render_loop d f 0 i tr = Some (iterations d f 0 (Suc m) i tr))
   \<and> ((\<forall>j. \<not> exit_requested d j) \<longrightarrow> render_loop d f 0 i tr = None)"
proof -
  have a: "exit_requested d k \<longleftrightarrow> glfwGetKey d k = GLFW_PRESS \<or> glfwWindowShouldClose d k \<noteq> 0"
    by (simp add: exit_requested_def)
  have b: "fst (loop_cond d k tr') \<longleftrightarrow> \<not> exit_requested d k"
    by (rule loop_cond_continue)
  have c: "exit_requested d k \<longrightarrow>
        render_loop d f k i tr
          = Some (int32 (i + 1), snd (loop_cond d k (snd (loop_body f i tr))))"
    using render_loop_exit by blast
  have c': "glfwGetKey d k \<noteq> GLFW_PRESS \<and> glfwWindowShouldClose d k \<noteq> 0 \<longrightarrow>
        render_loop d f k i tr
          = Some (int32 (i + 1),
                  snd (loop_body f i tr) @ [Glfw GlfwGetKey, Glfw GlfwWindowShouldClose])"
  proof
    assume h: "glfwGetKey d k \<noteq> GLFW_PRESS \<and> glfwWindowShouldClose d k \<noteq> 0"
    then have "exit_requested d k" by (simp add: exit_requested_def)
    from render_loop_exit[OF this, of f i tr] h
    show "render_loop d f k i tr
          = Some (int32 (i + 1),
                  snd (loop_body f i tr) @ [Glfw GlfwGetKey, Glfw GlfwWindowShouldClose])"
      by (simp add: loop_cond_def)
  qed
  have e: "\<not> exit_requested d k \<longrightarrow>
        render_loop d f k i tr
          = render_loop d f (Suc k) (int32 (i + 1)) (snd (loop_cond d k (snd (loop_body f i tr))))"
    using render_loop_repeat by blast
  have g: "(\<forall>j<m. \<not> exit_requested d j) \<and> exit_requested d m \<longrightarrow>
        render_loop d f 0 i tr = Some (iterations d f 0 (Suc m) i tr)"
  proof
    assume h: "(\<forall>j<m. \<not> exit_requested d j) \<and> exit_requested d m"
    then have "render_loop d f 0 i tr = Some (iterations d f 0 (Suc m - 0) i tr)"
      by (intro render_loop_first_exit) simp_all
    then show "render_loop d f 0 i tr = Some (iterations d f 0 (Suc m) i tr)" by simp
  qed
  have n: "(\<forall>j. \<not> exit_requested d j) \<longrightarrow> render_loop d f 0 i tr = None"
    using render_loop_never by blast
  from a b c c' e g n show ?thesis by blast
qed

theorem C3_exit_condition_witness:
  "glfwGetKey demo_driver 2 \<noteq> GLFW_PRESS
   \<and> glfwWindowShouldClose demo_driver 2 \<noteq> 0
   \<and> render_loop demo_driver (the_frame demo_driver) 0 0 []
       = Some (iterations demo_driver (the_frame demo_driver) 0 (Suc 2) 0 [])
   \<and> render_loop demo_driver (the_frame demo_driver) 2 7 []
       = Some (int32 (7 + 1), snd (loop_body (the_frame demo_driver) 7 [])
                  @ [Glfw GlfwGetKey, Glfw GlfwWindowShouldClose])
   \<and> render_loop escape_driver (the_frame escape_driver) 0 0 []
       = Some (iterations escape_driver (the_frame escape_driver) 0 (Suc 1) 0 [])
   \<and> render_loop endless_driver (the_frame endless_driver) 0 0 [] = None"
proof -
  have k: "glfwGetKey demo_driver 2 \<noteq> GLFW_PRESS" "glfwWindowShouldClose demo_driver 2 \<noteq> 0"
    by (simp_all add: demo_driver_def GLFW_PRESS_def)
  have lt3: "\<forall>j<2. \<not> exit_requested demo_driver j"
    using demo_driver_facts(4,5) by (auto simp add: less_Suc_eq numeral_2_eq_2)
  have lt2: "\<forall>j<1. \<not> exit_requested escape_driver j"
    using escape_driver_facts(4) by simp
  have a: "render_loop demo_driver (the_frame demo_driver) 0 0 []
       = Some (iterations demo_driver (the_frame demo_driver) 0 (Suc 2) 0 [])"
    using C3_exit_condition[of demo_driver 0 "[]" "the_frame demo_driver" 0 "[]" 2]
      lt3 demo_driver_facts(6) by blast
  have b: "render_loop demo_driver (the_frame demo_driver) 2 7 []
       = Some (int32 (7 + 1), snd (loop_body (the_frame demo_driver) 7 [])
                  @ [Glfw GlfwGetKey, Glfw GlfwWindowShouldClose])"
    using C3_exit_condition[of demo_driver 2 "[]" "the_frame demo_driver" 7 "[]" 0] k
    by blast
  have c: "render_loop escape_driver (the_frame escape_driver) 0 0 []
       = Some (iterations escape_driver (the_frame escape_driver) 0 (Suc 1) 0 [])"
    using C3_exit_condition[of escape_driver 0 "[]" "the_frame escape_driver" 0 "[]" 1]
      lt2 escape_driver_facts(5) by blast
  have e: "render_loop endless_driver (the_frame endless_driver) 0 0 [] = None"
    using C3_exit_condition[of endless_driver 0 "[]" "the_frame endless_driver" 0 "[]" 0]
      endless_driver_facts(4) by blast
  from k a b c e show ?thesis by blast
qed

subsection \<open>The outcomes of \<^verbatim>\<open>main\<close>\<close>

lemma main_setup_vertex_fail:
  "\<not> compiles d GL_VERTEX_SHADER \<Longrightarrow> \<exists>x tr'. main_setup d tr = (Inl x, tr')"
  by (simp add: main_setup_def Let_def vertex_shader_def shader_ctor_fail)

lemma main_setup_fragment_fail:
  "compiles d GL_VERTEX_SHADER \<Longrightarrow> \<not> compiles d GL_FRAGMENT_SHADER \<Longrightarrow>
   \<exists>x tr'. main_setup d tr = (Inl x, tr')"
  by (simp add: main_setup_def Let_def vertex_shader_def fragment_shader_def
        shader_ctor_fail shader_ctor_ok)

lemma main_setup_ok:
  assumes "compiles d GL_VERTEX_SHADER" "compiles d GL_FRAGMENT_SHADER"
  shows "\<exists>ext. main_setup d tr = (Inr (the_locals d), tr @ ext)
           \<and> filter is_release ext = []
           \<and> filter is_alloc ext = []
           \<and> filter is_upload ext = []
           \<and> filter is_create ext =
               [Buffer (GlGenVertexArrays (glGenVertexArrays d)),
                Shader (GlCreateShader GL_VERTEX_SHADER (glCreateShader d GL_VERTEX_SHADER)),
                Shader (GlCreateShader GL_FRAGMENT_SHADER (glCreateShader d GL_FRAGMENT_SHADER)),
                Program (GlCreateProgram (glCreateProgram d)),
                Buffer (GlGenBuffers (glGenBuffers_vbo d)),
                Buffer (GlGenBuffers (glGenBuffers_ebo d)),
                Texture (GlGenTextures (glGenTextures d))]"
  using assms
  by (simp add: main_setup_def Let_def vertex_shader_def fragment_shader_def
        shader_ctor_ok shader_program_ctor_def use_def link_def attach_fragment_def
        attach_vertex_def shader_attach_def attrib_def uniform_def framebuffer_ctor_def
        framebuffer_bind_def the_locals_def the_frame_def)

lemma main_setup_fail_trace:
  assumes "\<not> (compiles d GL_VERTEX_SHADER \<and> compiles d GL_FRAGMENT_SHADER)"
  shows "\<exists>x ext. main_setup d tr = (Inl x, tr @ ext) \<and> filter is_alloc ext = []"
proof (cases "compiles d GL_VERTEX_SHADER")
  case False
  then show ?thesis
    by (simp add: main_setup_def Let_def vertex_shader_def shader_ctor_fail)
next
  case True
  with assms have "\<not> compiles d GL_FRAGMENT_SHADER" by simp
  with True show ?thesis
    by (simp add: main_setup_def Let_def vertex_shader_def fragment_shader_def
          shader_ctor_fail shader_ctor_ok)
qed

lemma main_early:
  assumes "\<not> init_ok d"
  shows "\<exists>tr. main d = Some (Returned (- 1), tr)
            \<and> filter is_create tr = [] \<and> filter is_release tr = []
            \<and> filter is_alloc tr = [OperatorNew (alloc_elems images)]"
  using assms by (auto simp add: main_def init_ok_def Let_def split: option.splits)

lemma main_uncaught:
  assumes "init_ok d" "\<not> (compiles d GL_VERTEX_SHADER \<and> compiles d GL_FRAGMENT_SHADER)"
  shows "\<exists>x tr. main d = Some (Uncaught x, tr)"
proof -
  let ?tr2 = "[OperatorNew (alloc_elems images), Glfw GlfwInit,
               Glfw (GlfwWindowHint ''GLFW_SAMPLES'' ''4''),
               Glfw (GlfwWindowHint ''GLFW_CONTEXT_VERSION_MAJOR'' ''3''),
               Glfw (GlfwWindowHint ''GLFW_CONTEXT_VERSION_MINOR'' ''3''),
               Glfw (GlfwWindowHint ''GLFW_OPENGL_FORWARD_COMPAT'' ''GL_TRUE''),
               Glfw (GlfwWindowHint ''GLFW_OPENGL_PROFILE'' ''GLFW_OPENGL_CORE_PROFILE''),
               Glfw (GlfwCreateWindow width height ''Flipbook''),
               Glfw GlfwMakeContextCurrent, Draw GlewInit]"
  have "\<exists>x tr'. main_setup d ?tr2 = (Inl x, tr')"
    using assms(2) main_setup_vertex_fail[of d ?tr2] main_setup_fragment_fail[of d ?tr2]
    by blast
  then obtain x tr' where s: "main_setup d ?tr2 = (Inl x, tr')" by blast
  have "main d = Some (Uncaught x, tr')"
    using assms(1) s by (auto simp add: main_def init_ok_def Let_def split: option.splits)
  then show ?thesis by blast
qed

lemma main_run:
  assumes "init_ok d" "compiles d GL_VERTEX_SHADER" "compiles d GL_FRAGMENT_SHADER"
  shows "\<exists>pre. main d = map_option (\<lambda>(i, tr4). (Returned 0, main_shutdown (the_locals d) tr4))
                          (render_loop d (the_frame d) 0 0 pre)
            \<and> filter is_release pre = []
            \<and> filter is_alloc pre = [OperatorNew (alloc_elems images)]
            \<and> filter is_upload pre = []
            \<and> filter is_create pre =
               [Buffer (GlGenVertexArrays (glGenVertexArrays d)),
                Shader (GlCreateShader GL_VERTEX_SHADER (glCreateShader d GL_VERTEX_SHADER)),
                Shader (GlCreateShader GL_FRAGMENT_SHADER (glCreateShader d GL_FRAGMENT_SHADER)),
                Program (GlCreateProgram (glCreateProgram d)),
                Buffer (GlGenBuffers (glGenBuffers_vbo d)),
                Buffer (GlGenBuffers (glGenBuffers_ebo d)),
                Texture (GlGenTextures (glGenTextures d))]"
proof -
  let ?tr2 = "[OperatorNew (alloc_elems images), Glfw GlfwInit,
               Glfw (GlfwWindowHint ''GLFW_SAMPLES'' ''4''),
               Glfw (GlfwWindowHint ''GLFW_CONTEXT_VERSION_MAJOR'' ''3''),
               Glfw (GlfwWindowHint ''GLFW_CONTEXT_VERSION_MINOR'' ''3''),
               Glfw (GlfwWindowHint ''GLFW_OPENGL_FORWARD_COMPAT'' ''GL_TRUE''),
               Glfw (GlfwWindowHint ''GLFW_OPENGL_PROFILE'' ''GLFW_OPENGL_CORE_PROFILE''),
               Glfw (GlfwCreateWindow width height ''Flipbook''),
               Glfw GlfwMakeContextCurrent, Draw GlewInit]"
  from main_setup_ok[OF assms(2,3), of ?tr2]
  obtain ext where s: "main_setup d ?tr2 = (Inr (the_locals d), ?tr2 @ ext)"
    and r: "filter is_release ext = []" and a: "filter is_alloc ext = []"
    and u: "filter is_upload ext = []"
    and c: "filter is_create ext =
               [Buffer (GlGenVertexArrays (glGenVertexArrays d)),
                Shader (GlCreateShader GL_VERTEX_SHADER (glCreateShader d GL_VERTEX_SHADER)),
                Shader (GlCreateShader GL_FRAGMENT_SHADER (glCreateShader d GL_FRAGMENT_SHADER)),
                Program (GlCreateProgram (glCreateProgram d)),
                Buffer (GlGenBuffers (glGenBuffers_vbo d)),
                Buffer (GlGenBuffers (glGenBuffers_ebo d)),
                Texture (GlGenTextures (glGenTextures d))]"
    by blast
  have fr: "frame (the_locals d) = the_frame d" by (simp add: the_locals_def)
  have "main d = map_option (\<lambda>(i, tr4). (Returned 0, main_shutdown (the_locals d) tr4))
                          (render_loop d (the_frame d) 0 0 (?tr2 @ ext))"
    using assms(1) s fr by (auto simp add: main_def init_ok_def Let_def split: option.splits)
  then show ?thesis
    by (intro exI[of _ "?tr2 @ ext"]) (simp add: r a u c)
qed

lemma main_shutdown_trace:
  "main_shutdown (the_locals d) tr
     = tr @ [Buffer (GlDeleteBuffers (glGenBuffers_ebo d)),
             Buffer (GlDeleteBuffers (glGenBuffers_vbo d)),
             Buffer (GlDeleteVertexArrays (glGenVertexArrays d)),
             Glfw GlfwTerminate,
             Texture (GlDeleteTextures (glGenTextures d)),
             Program (GlDeleteProgram (glCreateProgram d)),
             Shader (GlDeleteShader (glCreateShader d GL_FRAGMENT_SHADER)),
             Shader (GlDeleteShader (glCreateShader d GL_VERTEX_SHADER))]"
  by (simp add: main_shutdown_def Let_def shader_base_dtor_def shader_program_dtor_def
        framebuffer_dtor_def the_locals_def the_frame_def)

lemma main_returns_0:
  assumes "main d = Some (Returned 0, tr)"
  shows "init_ok d \<and> compiles d GL_VERTEX_SHADER \<and> compiles d GL_FRAGMENT_SHADER
         \<and> (\<exists>pre i' tr4. render_loop d (the_frame d) 0 0 pre = Some (i', tr4)
               \<and> tr = main_shutdown (the_locals d) tr4
               \<and> filter is_release pre = []
               \<and> filter is_alloc pre = [OperatorNew (alloc_elems images)]
               \<and> filter is_create pre =
                  [Buffer (GlGenVertexArrays (glGenVertexArrays d)),
                   Shader (GlCreateShader GL_VERTEX_SHADER (glCreateShader d GL_VERTEX_SHADER)),
                   Shader (GlCreateShader GL_FRAGMENT_SHADER (glCreateShader d GL_FRAGMENT_SHADER)),
                   Program (GlCreateProgram (glCreateProgram d)),
                   Buffer (GlGenBuffers (glGenBuffers_vbo d)),
                   Buffer (GlGenBuffers (glGenBuffers_ebo d)),
                   Texture (GlGenTextures (glGenTextures d))])"
proof -
  have i: "init_ok d"
  proof (rule ccontr)
    assume "\<not> init_ok d"
    from main_early[OF this] assms show False by auto
  qed
  have c: "compiles d GL_VERTEX_SHADER \<and> compiles d GL_FRAGMENT_SHADER"
  proof (rule ccontr)
    assume "\<not> (compiles d GL_VERTEX_SHADER \<and> compiles d GL_FRAGMENT_SHADER)"
    from main_uncaught[OF i this] assms show False by auto
  qed
  from main_run[OF i] c obtain pre where
    m: "main d = map_option (\<lambda>(i, tr4). (Returned 0, main_shutdown (the_locals d) tr4))
                          (render_loop d (the_frame d) 0 0 pre)"
    and p: "filter is_release pre = []" "filter is_alloc pre = [OperatorNew (alloc_elems images)]"
      "filter is_create pre =
                  [Buffer (GlGenVertexArrays (glGenVertexArrays d)),
                   Shader (GlCreateShader GL_VERTEX_SHADER (glCreateShader d GL_VERTEX_SHADER)),
                   Shader (GlCreateShader GL_FRAGMENT_SHADER (glCreateShader d GL_FRAGMENT_SHADER)),
                   Program (GlCreateProgram (glCreateProgram d)),
                   Buffer (GlGenBuffers (glGenBuffers_vbo d)),
                   Buffer (GlGenBuffers (glGenBuffers_ebo d)),
                   Texture (GlGenTextures (glGenTextures d))]"
    by blast
  from m assms obtain i' tr4 where
    "render_loop d (the_frame d) 0 0 pre = Some (i', tr4)" "tr = main_shutdown (the_locals d) tr4"
    by (cases "render_loop d (the_frame d) 0 0 pre") auto
  with i c p show ?thesis by blast
qed

lemma main_normal_exit:
  assumes "init_ok d" "compiles d GL_VERTEX_SHADER" "compiles d GL_FRAGMENT_SHADER"
    "exit_requested d m"
  shows "\<exists>tr. main d = Some (Returned 0, tr)"
proof -
  from main_run[OF assms(1,2,3)] obtain pre where
    m: "main d = map_option (\<lambda>(i, tr4). (Returned 0, main_shutdown (the_locals d) tr4))
                          (render_loop d (the_frame d) 0 0 pre)"
    by blast
  have "\<exists>r. render_loop d (the_frame d) 0 0 pre = Some r"
    using assms(4) render_loop_returns_iff[of d "the_frame d" 0 pre] by blast
  then obtain i' tr4 where "render_loop d (the_frame d) 0 0 pre = Some (i', tr4)" by auto
  with m have "main d = Some (Returned 0, main_shutdown (the_locals d) tr4)" by simp
  then show ?thesis by blast
qed

lemma main_endless:
  assumes "init_ok d" "compiles d GL_VERTEX_SHADER" "compiles d GL_FRAGMENT_SHADER"
    "\<forall>j. \<not> exit_requested d j"
  shows "main d = None"
proof -
  from main_run[OF assms(1,2,3)] obtain pre where
    m: "main d = map_option (\<lambda>(i, tr4). (Returned 0, main_shutdown (the_locals d) tr4))
                          (render_loop d (the_frame d) 0 0 pre)"
    by blast
  show ?thesis unfolding m using render_loop_never[OF assms(4)] by simp
qed

lemma main_outcome_cases:
  obtains (early) tr where "\<not> init_ok d" "main d = Some (Returned (- 1), tr)"
  | (uncaught) x tr where "init_ok d"
      "\<not> (compiles d GL_VERTEX_SHADER \<and> compiles d GL_FRAGMENT_SHADER)"
      "main d = Some (Uncaught x, tr)"
  | (normal) tr where "init_ok d" "compiles d GL_VERTEX_SHADER" "compiles d GL_FRAGMENT_SHADER"
      "\<exists>m. exit_requested d m" "main d = Some (Returned 0, tr)"
  | (endless) "init_ok d" "compiles d GL_VERTEX_SHADER" "compiles d GL_FRAGMENT_SHADER"
      "\<forall>m. \<not> exit_requested d m" "main d = None"
proof (cases "init_ok d")
  case False
  from main_early[OF False] obtain tr where "main d = Some (Returned (- 1), tr)" by blast
  with False show ?thesis by (rule early)
next
  case i: True
  show ?thesis
  proof (cases "compiles d GL_VERTEX_SHADER \<and> compiles d GL_FRAGMENT_SHADER")
    case False
    from main_uncaught[OF i False] obtain x tr where "main d = Some (Uncaught x, tr)" by blast
    with i False show ?thesis by (rule uncaught)
  next
    case c: True
    then have cv: "compiles d GL_VERTEX_SHADER" and cf: "compiles d GL_FRAGMENT_SHADER"
      by simp_all
    show ?thesis
    proof (cases "\<exists>m. exit_requested d m")
      case True
      then obtain m where "exit_requested d m" ..
      from main_normal_exit[OF i cv cf this] obtain tr where "main d = Some (Returned 0, tr)" ..
      with i cv cf True show ?thesis by (rule normal)
    next
      case False
      then have n: "\<forall>m. \<not> exit_requested d m" by simp
      from main_endless[OF i cv cf n] have "main d = None" .
      with i cv cf n show ?thesis by (rule endless)
    qed
  qed
qed

lemma main_one_allocation:
  assumes "main d = Some (r, tr)"
  shows "filter is_alloc tr = [OperatorNew 31457280]"
proof (cases "init_ok d")
  case False
  from main_early[OF False] assms show ?thesis by (auto simp add: alloc_elems_images)
next
  case i: True
  show ?thesis
  proof (cases "compiles d GL_VERTEX_SHADER \<and> compiles d GL_FRAGMENT_SHADER")
    case False
    let ?tr2 = "[OperatorNew (alloc_elems images), Glfw GlfwInit,
               Glfw (GlfwWindowHint ''GLFW_SAMPLES'' ''4''),
               Glfw (GlfwWindowHint ''GLFW_CONTEXT_VERSION_MAJOR'' ''3''),
               Glfw (GlfwWindowHint ''GLFW_CONTEXT_VERSION_MINOR'' ''3''),
               Glfw (GlfwWindowHint ''GLFW_OPENGL_FORWARD_COMPAT'' ''GL_TRUE''),
               Glfw (GlfwWindowHint ''GLFW_OPENGL_PROFILE'' ''GLFW_OPENGL_CORE_PROFILE''),
               Glfw (GlfwCreateWindow width height ''Flipbook''),
               Glfw GlfwMakeContextCurrent, Draw GlewInit]"
    from main_setup_fail_trace[OF False, of ?tr2] obtain x ext where
      s: "main_setup d ?tr2 = (Inl x, ?tr2 @ ext)" and e: "filter is_alloc ext = []" by blast
    have "main d = Some (Uncaught x, ?tr2 @ ext)"
      using i s by (auto simp add: main_def init_ok_def Let_def split: option.splits)
    with assms have "tr = ?tr2 @ ext" by simp
    then show ?thesis by (simp add: e alloc_elems_images)
  next
    case c: True
    from main_run[OF i] c obtain pre where
      m: "main d = map_option (\<lambda>(i, tr4). (Returned 0, main_shutdown (the_locals d) tr4))
                          (render_loop d (the_frame d) 0 0 pre)"
      and p: "filter is_alloc pre = [OperatorNew (alloc_elems images)]"
      by blast
    from m assms obtain i' tr4 where
      rl: "render_loop d (the_frame d) 0 0 pre = Some (i', tr4)"
      and tr: "tr = main_shutdown (the_locals d) tr4"
      by (cases "render_loop d (the_frame d) 0 0 pre") auto
    from render_loop_Some_iterations[OF rl] obtain m' where
      it: "(i', tr4) = iterations d (the_frame d) 0 (Suc m' - 0) 0 pre" by blast
    from iterations_trace[of d "the_frame d" 0 "Suc m' - 0" 0 pre] obtain ext where
      ex: "snd (iterations d (the_frame d) 0 (Suc m' - 0) 0 pre) = pre @ ext"
      and ea: "filter is_alloc ext = []"
      by blast
    have tr4: "tr4 = pre @ ext" using it ex by (metis snd_conv)
    show ?thesis
      unfolding tr tr4 main_shutdown_trace by (simp add: p ea alloc_elems_images)
  qed
qed

lemma count_list_filter_eq: "P c \<Longrightarrow> count_list (filter P xs) c = count_list xs c"
  by (induction xs) auto

text \<open>
  C4, as amended. \<^verbatim>\<open>compile\<close> throws exactly when the compile status it reads is
  not \<open>GL_TRUE\<close>. The exception carries the first 511 characters of the driver's log
  (a buffer of 512 bytes with the terminator), and its text is empty exactly when the
  driver's log is empty: nothing in the code makes it non-empty. With the status
  \<open>GL_TRUE\<close> \<^verbatim>\<open>compile\<close> returns normally. The constructor throws exactly when
  its shader does not compile, and \<^verbatim>\<open>main\<close> then ends with the exception uncaught.
\<close>

theorem C4_compile_error:
  "((\<exists>x. fst (compile d s tr) = Inl x) \<longleftrightarrow> glGetShaderiv d (shader_obj s) \<noteq> GL_TRUE)
   \<and> (glGetShaderiv d (shader_obj s) \<noteq> GL_TRUE \<longrightarrow>
        fst (compile d s tr)
          = Inl (Runtime_error (take 511 (glGetShaderInfoLog d (shader_obj s)))))
   \<and> (\<forall>msg. fst (compile d s tr) = Inl (Runtime_error msg) \<longrightarrow>
          length msg \<le> 511
          \<and> msg = take 511 (glGetShaderInfoLog d (shader_obj s))
          \<and> (msg \<noteq> [] \<longleftrightarrow> glGetShaderInfoLog d (shader_obj s) \<noteq> []))
   \<and> (glGetShaderiv d (shader_obj s) = GL_TRUE \<longrightarrow> fst (compile d s tr) = Inr ())
   \<and> ((\<exists>x. fst (shader_base_ctor d src t tr) = Inl x) \<longleftrightarrow> \<not> compiles d t)
   \<and> (init_ok d \<and> \<not> (compiles d GL_VERTEX_SHADER \<and> compiles d GL_FRAGMENT_SHADER) \<longrightarrow>
        (\<exists>x tr'. main d = Some (Uncaught x, tr')))"
proof -
  have a: "(\<exists>x. fst (compile d s tr) = Inl x) \<longleftrightarrow> glGetShaderiv d (shader_obj s) \<noteq> GL_TRUE"
    by (cases "glGetShaderiv d (shader_obj s) = GL_TRUE") (simp_all add: compile_ok compile_fail)
  have b: "glGetShaderiv d (shader_obj s) \<noteq> GL_TRUE \<longrightarrow>
        fst (compile d s tr)
          = Inl (Runtime_error (take 511 (glGetShaderInfoLog d (shader_obj s))))"
    by (simp add: compile_fail)
  have c: "\<forall>msg. fst (compile d s tr) = Inl (Runtime_error msg) \<longrightarrow>
          length msg \<le> 511
          \<and> msg = take 511 (glGetShaderInfoLog d (shader_obj s))
          \<and> (msg \<noteq> [] \<longleftrightarrow> glGetShaderInfoLog d (shader_obj s) \<noteq> [])"
    by (cases "glGetShaderiv d (shader_obj s) = GL_TRUE")
       (auto simp add: compile_ok compile_fail)
  have e: "glGetShaderiv d (shader_obj s) = GL_TRUE \<longrightarrow> fst (compile d s tr) = Inr ()"
    by (simp add: compile_ok)
  have g: "(\<exists>x. fst (shader_base_ctor d src t tr) = Inl x) \<longleftrightarrow> \<not> compiles d t"
    by (cases "compiles d t") (simp_all add: shader_ctor_ok shader_ctor_fail)
  have h: "init_ok d \<and> \<not> (compiles d GL_VERTEX_SHADER \<and> compiles d GL_FRAGMENT_SHADER) \<longrightarrow>
        (\<exists>x tr'. main d = Some (Uncaught x, tr'))"
    using main_uncaught by blast
  show ?thesis by (intro conjI a b c e g h)
qed

theorem C4_compile_error_witness:
  "fst (compile rejecting_driver \<lparr> prog_type = GL_FRAGMENT_SHADER, shader_obj = 2 \<rparr> [])
     = Inl (Runtime_error ''0:1(1): error: syntax error'')
   \<and> fst (compile rejecting_driver \<lparr> prog_type = GL_VERTEX_SHADER, shader_obj = 1 \<rparr> []) = Inr ()
   \<and> (\<exists>x tr'. main rejecting_driver = Some (Uncaught x, tr'))"
proof -
  let ?fs = "\<lparr> prog_type = GL_FRAGMENT_SHADER, shader_obj = 2 \<rparr>"
  let ?vs = "\<lparr> prog_type = GL_VERTEX_SHADER, shader_obj = 1 \<rparr>"
  have st: "glGetShaderiv rejecting_driver (shader_obj ?fs) \<noteq> GL_TRUE"
    "glGetShaderiv rejecting_driver (shader_obj ?vs) = GL_TRUE"
    by (simp_all add: rejecting_driver_def demo_driver_def GL_TRUE_def)
  have lg: "take 511 (glGetShaderInfoLog rejecting_driver (shader_obj ?fs))
      = ''0:1(1): error: syntax error''"
    by (simp add: rejecting_driver_def demo_driver_def)
  have i: "init_ok rejecting_driver
      \<and> \<not> (compiles rejecting_driver GL_VERTEX_SHADER \<and> compiles rejecting_driver GL_FRAGMENT_SHADER)"
    by (simp add: rejecting_driver_def demo_driver_def init_ok_def compiles_def
          GL_TRUE_def GLEW_OK_def)
  note thm_f = C4_compile_error[of rejecting_driver ?fs "[]" "[]" GL_FRAGMENT_SHADER]
  note thm_v = C4_compile_error[of rejecting_driver ?vs "[]" "[]" GL_VERTEX_SHADER]
  have a: "fst (compile rejecting_driver ?fs []) 
      = Inl (Runtime_error ''0:1(1): error: syntax error'')"
    using thm_f[THEN conjunct2, THEN conjunct1, THEN mp, OF st(1)] lg by (simp only:)
  have b: "fst (compile rejecting_driver ?vs []) = Inr ()"
    using thm_v[THEN conjunct2, THEN conjunct2, THEN conjunct2, THEN conjunct1, THEN mp, OF st(2)] .
  have c: "\<exists>x tr'. main rejecting_driver = Some (Uncaught x, tr')"
    using thm_v[THEN conjunct2, THEN conjunct2, THEN conjunct2, THEN conjunct2, THEN conjunct2,
                THEN mp, OF i] .
  show ?thesis by (intro conjI a b c)
qed

text \<open>
  The claim C4 as stated, that the diagnostic text of a failed compilation is always
  non-empty, fails for a driver that rejects a shader and keeps an empty log: the
  exception is thrown with the empty text.
\<close>

theorem C4_empty_log_counterexample:
  "glGetShaderiv silent_driver 2 \<noteq> GL_TRUE
   \<and> fst (compile silent_driver \<lparr> prog_type = GL_FRAGMENT_SHADER, shader_obj = 2 \<rparr> [])
       = Inl (Runtime_error [])"
  by (simp add: compile_def Let_def silent_driver_def demo_driver_def GL_TRUE_def)

text \<open>
  C5. \<^verbatim>\<open>main\<close> returns \<open>-1\<close> exactly when \<^verbatim>\<open>glfwInit\<close> fails, the window is
  not created or \<^verbatim>\<open>glewInit\<close> fails. It returns \<open>0\<close> exactly when none of the
  three fails, both shaders compile and an exit is requested at some iteration, by the
  escape key or by the window alike. It returns no other value.
\<close>

theorem C5_exit_status:
  "((\<exists>tr. main d = Some (Returned (- 1), tr))
      \<longleftrightarrow> glfwInit d = 0 \<or> glfwCreateWindow d = None \<or> glewInit d \<noteq> GLEW_OK)
   \<and> ((\<exists>tr. main d = Some (Returned 0, tr))
      \<longleftrightarrow> glfwInit d \<noteq> 0 \<and> glfwCreateWindow d \<noteq> None \<and> glewInit d = GLEW_OK
          \<and> compiles d GL_VERTEX_SHADER \<and> compiles d GL_FRAGMENT_SHADER
          \<and> (\<exists>m. glfwGetKey d m = GLFW_PRESS \<or> glfwWindowShouldClose d m \<noteq> 0))
   \<and> (\<forall>c tr. main d = Some (Returned c, tr) \<longrightarrow> c = 0 \<or> c = - 1)"
proof -
  have A: "(\<exists>tr. main d = Some (Returned (- 1), tr)) \<longleftrightarrow> \<not> init_ok d"
    by (cases d rule: main_outcome_cases) simp_all
  have B: "(\<exists>tr. main d = Some (Returned 0, tr))
      \<longleftrightarrow> init_ok d \<and> compiles d GL_VERTEX_SHADER \<and> compiles d GL_FRAGMENT_SHADER
          \<and> (\<exists>m. exit_requested d m)"
    by (cases d rule: main_outcome_cases) auto
  have C: "\<forall>c tr. main d = Some (Returned c, tr) \<longrightarrow> c = 0 \<or> c = - 1"
    by (cases d rule: main_outcome_cases) simp_all
  have i: "\<not> init_ok d
      \<longleftrightarrow> glfwInit d = 0 \<or> glfwCreateWindow d = None \<or> glewInit d \<noteq> GLEW_OK"
    by (simp add: init_ok_def)
  have j: "init_ok d \<and> compiles d GL_VERTEX_SHADER \<and> compiles d GL_FRAGMENT_SHADER
          \<and> (\<exists>m. exit_requested d m)
      \<longleftrightarrow> glfwInit d \<noteq> 0 \<and> glfwCreateWindow d \<noteq> None \<and> glewInit d = GLEW_OK
          \<and> compiles d GL_VERTEX_SHADER \<and> compiles d GL_FRAGMENT_SHADER
          \<and> (\<exists>m. glfwGetKey d m = GLFW_PRESS \<or> glfwWindowShouldClose d m \<noteq> 0)"
    by (simp add: init_ok_def exit_requested_def)
  show ?thesis
    by (intro conjI A[unfolded i] B[unfolded j] C)
qed

theorem C5_exit_status_witness:
  "(\<exists>tr. main demo_driver = Some (Returned 0, tr))
   \<and> (\<exists>tr. main escape_driver = Some (Returned 0, tr))
   \<and> (\<exists>tr. main (demo_driver \<lparr> glfwInit := 0 \<rparr>) = Some (Returned (- 1), tr))
   \<and> (\<exists>tr. main (demo_driver \<lparr> glfwCreateWindow := None \<rparr>) = Some (Returned (- 1), tr))
   \<and> (\<exists>tr. main (demo_driver \<lparr> glewInit := 1 \<rparr>) = Some (Returned (- 1), tr))
   \<and> (\<nexists>tr. main rejecting_driver = Some (Returned 0, tr))
   \<and> (\<nexists>tr. main rejecting_driver = Some (Returned (- 1), tr))"
proof -
  have d0: "glfwInit demo_driver \<noteq> 0 \<and> glfwCreateWindow demo_driver \<noteq> None
      \<and> glewInit demo_driver = GLEW_OK
      \<and> compiles demo_driver GL_VERTEX_SHADER \<and> compiles demo_driver GL_FRAGMENT_SHADER
      \<and> (\<exists>m. glfwGetKey demo_driver m = GLFW_PRESS \<or> glfwWindowShouldClose demo_driver m \<noteq> 0)"
    using demo_driver_facts(1,2,3,6) by (auto simp add: init_ok_def exit_requested_def)
  have e0: "glfwInit escape_driver \<noteq> 0 \<and> glfwCreateWindow escape_driver \<noteq> None
      \<and> glewInit escape_driver = GLEW_OK
      \<and> compiles escape_driver GL_VERTEX_SHADER \<and> compiles escape_driver GL_FRAGMENT_SHADER
      \<and> (\<exists>m. glfwGetKey escape_driver m = GLFW_PRESS
               \<or> glfwWindowShouldClose escape_driver m \<noteq> 0)"
    using escape_driver_facts(1,2,3,5) by (auto simp add: init_ok_def exit_requested_def)
  have a: "\<exists>tr. main demo_driver = Some (Returned 0, tr)"
    using C5_exit_status[of demo_driver, THEN conjunct2, THEN conjunct1, THEN iffD2, OF d0] .
  have b: "\<exists>tr. main escape_driver = Some (Returned 0, tr)"
    using C5_exit_status[of escape_driver, THEN conjunct2, THEN conjunct1, THEN iffD2, OF e0] .
  have c: "\<exists>tr. main (demo_driver \<lparr> glfwInit := 0 \<rparr>) = Some (Returned (- 1), tr)"
    using C5_exit_status[of "demo_driver \<lparr> glfwInit := 0 \<rparr>", THEN conjunct1] by simp
  have e: "\<exists>tr. main (demo_driver \<lparr> glfwCreateWindow := None \<rparr>) = Some (Returned (- 1), tr)"
    using C5_exit_status[of "demo_driver \<lparr> glfwCreateWindow := None \<rparr>", THEN conjunct1] by simp
  have g: "\<exists>tr. main (demo_driver \<lparr> glewInit := 1 \<rparr>) = Some (Returned (- 1), tr)"
    using C5_exit_status[of "demo_driver \<lparr> glewInit := 1 \<rparr>", THEN conjunct1]
    by (simp add: GLEW_OK_def)
  have r: "\<not> compiles rejecting_driver GL_FRAGMENT_SHADER"
    "\<not> (glfwInit rejecting_driver = 0 \<or> glfwCreateWindow rejecting_driver = None
        \<or> glewInit rejecting_driver \<noteq> GLEW_OK)"
    by (simp_all add: rejecting_driver_def demo_driver_def compiles_def GL_TRUE_def GLEW_OK_def)
  have h: "\<nexists>tr. main rejecting_driver = Some (Returned 0, tr)"
    using C5_exit_status[of rejecting_driver, THEN conjunct2, THEN conjunct1] r(1) by simp
  have j: "\<nexists>tr. main rejecting_driver = Some (Returned (- 1), tr)"
    using C5_exit_status[of rejecting_driver, THEN conjunct1] r(2) by blast
  show ?thesis by (intro conjI a b c e g h j)
qed

text \<open>
  C8. When \<^verbatim>\<open>main\<close> returns 0, its trace creates seven OpenGL objects (the vertex
  array, the two shaders, the program, the two buffers, the texture) and holds seven
  release calls, one for each: the two buffers and the vertex array are deleted
  explicitly, before \<^verbatim>\<open>glfwTerminate\<close>, and the texture, the program and the two
  shaders by the destructors that run when \<^verbatim>\<open>main\<close> returns. When the driver gives
  the two buffers and the two shaders different names, every one of the seven release
  calls occurs exactly once in the trace.
\<close>

theorem C8_release_once:
  assumes "main d = Some (Returned 0, tr)"
  shows "filter is_create tr =
           [Buffer (GlGenVertexArrays (glGenVertexArrays d)),
            Shader (GlCreateShader GL_VERTEX_SHADER (glCreateShader d GL_VERTEX_SHADER)),
            Shader (GlCreateShader GL_FRAGMENT_SHADER (glCreateShader d GL_FRAGMENT_SHADER)),
            Program (GlCreateProgram (glCreateProgram d)),
            Buffer (GlGenBuffers (glGenBuffers_vbo d)),
            Buffer (GlGenBuffers (glGenBuffers_ebo d)),
            Texture (GlGenTextures (glGenTextures d))]
       \<and> filter is_release tr =
           [Buffer (GlDeleteBuffers (glGenBuffers_ebo d)),
            Buffer (GlDeleteBuffers (glGenBuffers_vbo d)),
            Buffer (GlDeleteVertexArrays (glGenVertexArrays d)),
            Texture (GlDeleteTextures (glGenTextures d)),
            Program (GlDeleteProgram (glCreateProgram d)),
            Shader (GlDeleteShader (glCreateShader d GL_FRAGMENT_SHADER)),
            Shader (GlDeleteShader (glCreateShader d GL_VERTEX_SHADER))]
       \<and> (\<exists>pre. filter is_release pre = []
              \<and> tr = pre @
                 [Buffer (GlDeleteBuffers (glGenBuffers_ebo d)),
                  Buffer (GlDeleteBuffers (glGenBuffers_vbo d)),
                  Buffer (GlDeleteVertexArrays (glGenVertexArrays d)),
                  Glfw GlfwTerminate,
                  Texture (GlDeleteTextures (glGenTextures d)),
                  Program (GlDeleteProgram (glCreateProgram d)),
                  Shader (GlDeleteShader (glCreateShader d GL_FRAGMENT_SHADER)),
                  Shader (GlDeleteShader (glCreateShader d GL_VERTEX_SHADER))])
       \<and> (glGenBuffers_vbo d \<noteq> glGenBuffers_ebo d
            \<and> glCreateShader d GL_VERTEX_SHADER \<noteq> glCreateShader d GL_FRAGMENT_SHADER \<longrightarrow>
              count_list tr (Buffer (GlDeleteBuffers (glGenBuffers_ebo d))) = 1
            \<and> count_list tr (Buffer (GlDeleteBuffers (glGenBuffers_vbo d))) = 1
            \<and> count_list tr (Buffer (GlDeleteVertexArrays (glGenVertexArrays d))) = 1
            \<and> count_list tr (Texture (GlDeleteTextures (glGenTextures d))) = 1
            \<and> count_list tr (Program (GlDeleteProgram (glCreateProgram d))) = 1
            \<and> count_list tr (Shader (GlDeleteShader (glCreateShader d GL_FRAGMENT_SHADER))) = 1
            \<and> count_list tr (Shader (GlDeleteShader (glCreateShader d GL_VERTEX_SHADER))) = 1)"
proof -
  from main_returns_0[OF assms] obtain pre i' tr4 where
    rl: "render_loop d (the_frame d) 0 0 pre = Some (i', tr4)"
    and tr: "tr = main_shutdown (the_locals d) tr4"
    and pr: "filter is_release pre = []"
    and pc: "filter is_create pre =
                  [Buffer (GlGenVertexArrays (glGenVertexArrays d)),
                   Shader (GlCreateShader GL_VERTEX_SHADER (glCreateShader d GL_VERTEX_SHADER)),
                   Shader (GlCreateShader GL_FRAGMENT_SHADER (glCreateShader d GL_FRAGMENT_SHADER)),
                   Program (GlCreateProgram (glCreateProgram d)),
                   Buffer (GlGenBuffers (glGenBuffers_vbo d)),
                   Buffer (GlGenBuffers (glGenBuffers_ebo d)),
                   Texture (GlGenTextures (glGenTextures d))]"
    by blast
  from render_loop_Some_iterations[OF rl] obtain m where
    it: "(i', tr4) = iterations d (the_frame d) 0 (Suc m - 0) 0 pre" by blast
  from iterations_trace[of d "the_frame d" 0 "Suc m - 0" 0 pre] obtain ext where
    ex: "snd (iterations d (the_frame d) 0 (Suc m - 0) 0 pre) = pre @ ext"
    and er: "filter is_release ext = []" and ec: "filter is_create ext = []"
    by blast
  have tr4: "tr4 = pre @ ext" using it ex by (metis snd_conv)
  let ?down = "[Buffer (GlDeleteBuffers (glGenBuffers_ebo d)),
                  Buffer (GlDeleteBuffers (glGenBuffers_vbo d)),
                  Buffer (GlDeleteVertexArrays (glGenVertexArrays d)),
                  Glfw GlfwTerminate,
                  Texture (GlDeleteTextures (glGenTextures d)),
                  Program (GlDeleteProgram (glCreateProgram d)),
                  Shader (GlDeleteShader (glCreateShader d GL_FRAGMENT_SHADER)),
                  Shader (GlDeleteShader (glCreateShader d GL_VERTEX_SHADER))]"
  have full: "tr = (pre @ ext) @ ?down"
    unfolding tr tr4 by (rule main_shutdown_trace)
  have c: "filter is_create tr =
           [Buffer (GlGenVertexArrays (glGenVertexArrays d)),
            Shader (GlCreateShader GL_VERTEX_SHADER (glCreateShader d GL_VERTEX_SHADER)),
            Shader (GlCreateShader GL_FRAGMENT_SHADER (glCreateShader d GL_FRAGMENT_SHADER)),
            Program (GlCreateProgram (glCreateProgram d)),
            Buffer (GlGenBuffers (glGenBuffers_vbo d)),
            Buffer (GlGenBuffers (glGenBuffers_ebo d)),
            Texture (GlGenTextures (glGenTextures d))]"
    unfolding full by (simp add: pc ec)
  have r: "filter is_release tr =
           [Buffer (GlDeleteBuffers (glGenBuffers_ebo d)),
            Buffer (GlDeleteBuffers (glGenBuffers_vbo d)),
            Buffer (GlDeleteVertexArrays (glGenVertexArrays d)),
            Texture (GlDeleteTextures (glGenTextures d)),
            Program (GlDeleteProgram (glCreateProgram d)),
            Shader (GlDeleteShader (glCreateShader d GL_FRAGMENT_SHADER)),
            Shader (GlDeleteShader (glCreateShader d GL_VERTEX_SHADER))]"
    unfolding full by (simp add: pr er)
  have s: "\<exists>pre. filter is_release pre = [] \<and> tr = pre @ ?down"
    by (rule exI[of _ "pre @ ext"]) (simp add: full pr er)
  have n: "glGenBuffers_vbo d \<noteq> glGenBuffers_ebo d
            \<and> glCreateShader d GL_VERTEX_SHADER \<noteq> glCreateShader d GL_FRAGMENT_SHADER \<longrightarrow>
              count_list tr (Buffer (GlDeleteBuffers (glGenBuffers_ebo d))) = 1
            \<and> count_list tr (Buffer (GlDeleteBuffers (glGenBuffers_vbo d))) = 1
            \<and> count_list tr (Buffer (GlDeleteVertexArrays (glGenVertexArrays d))) = 1
            \<and> count_list tr (Texture (GlDeleteTextures (glGenTextures d))) = 1
            \<and> count_list tr (Program (GlDeleteProgram (glCreateProgram d))) = 1
            \<and> count_list tr (Shader (GlDeleteShader (glCreateShader d GL_FRAGMENT_SHADER))) = 1
            \<and> count_list tr (Shader (GlDeleteShader (glCreateShader d GL_VERTEX_SHADER))) = 1"
  proof
    assume h: "glGenBuffers_vbo d \<noteq> glGenBuffers_ebo d
            \<and> glCreateShader d GL_VERTEX_SHADER \<noteq> glCreateShader d GL_FRAGMENT_SHADER"
    have cnt: "\<And>c. is_release c \<Longrightarrow> count_list tr c = count_list (filter is_release tr) c"
      by (simp add: count_list_filter_eq)
    show "count_list tr (Buffer (GlDeleteBuffers (glGenBuffers_ebo d))) = 1
            \<and> count_list tr (Buffer (GlDeleteBuffers (glGenBuffers_vbo d))) = 1
            \<and> count_list tr (Buffer (GlDeleteVertexArrays (glGenVertexArrays d))) = 1
            \<and> count_list tr (Texture (GlDeleteTextures (glGenTextures d))) = 1
            \<and> count_list tr (Program (GlDeleteProgram (glCreateProgram d))) = 1
            \<and> count_list tr (Shader (GlDeleteShader (glCreateShader d GL_FRAGMENT_SHADER))) = 1
            \<and> count_list tr (Shader (GlDeleteShader (glCreateShader d GL_VERTEX_SHADER))) = 1"
      using h by (auto simp add: cnt r)
  qed
  show ?thesis by (intro conjI c r s n)
qed

theorem C8_release_once_witness:
  "\<exists>tr. main demo_driver = Some (Returned 0, tr)
     \<and> filter is_create tr =
           [Buffer (GlGenVertexArrays 1),
            Shader (GlCreateShader GL_VERTEX_SHADER 1),
            Shader (GlCreateShader GL_FRAGMENT_SHADER 2),
            Program (GlCreateProgram 3),
            Buffer (GlGenBuffers 1),
            Buffer (GlGenBuffers 2),
            Texture (GlGenTextures 1)]
     \<and> filter is_release tr =
           [Buffer (GlDeleteBuffers 2),
            Buffer (GlDeleteBuffers 1),
            Buffer (GlDeleteVertexArrays 1),
            Texture (GlDeleteTextures 1),
            Program (GlDeleteProgram 3),
            Shader (GlDeleteShader 2),
            Shader (GlDeleteShader 1)]
     \<and> count_list tr (Buffer (GlDeleteBuffers 2)) = 1
     \<and> count_list tr (Shader (GlDeleteShader 1)) = 1"
proof -
  from main_normal_exit[OF demo_driver_facts(1,2,3,6)]
  obtain tr where m: "main demo_driver = Some (Returned 0, tr)" ..
  have v: "glGenVertexArrays demo_driver = 1" "glCreateShader demo_driver GL_VERTEX_SHADER = 1"
    "glCreateShader demo_driver GL_FRAGMENT_SHADER = 2" "glCreateProgram demo_driver = 3"
    "glGenBuffers_vbo demo_driver = 1" "glGenBuffers_ebo demo_driver = 2"
    "glGenTextures demo_driver = 1"
    by (simp_all add: demo_driver_def)
  note t = C8_release_once[OF m, unfolded v]
  have ne: "(1 :: GLuint) \<noteq> 2 \<and> (1 :: GLuint) \<noteq> 2" by simp
  note cnt = t[THEN conjunct2, THEN conjunct2, THEN conjunct2, THEN mp, OF ne]
  show ?thesis
    by (rule exI[of _ tr])
       (intro conjI m t[THEN conjunct1] t[THEN conjunct2, THEN conjunct1]
          cnt[THEN conjunct1] cnt[THEN conjunct2, THEN conjunct2, THEN conjunct2,
              THEN conjunct2, THEN conjunct2, THEN conjunct2])
qed

subsection \<open>Frame selection\<close>

lemma frame_offset_nonneg:
  assumes "0 \<le> i"
  shows "frame_offset i = (i mod NUMIMAGES) * (width * height)"
proof -
  have sm: "i smod NUMIMAGES = i mod NUMIMAGES"
    using assms by (cases "i = 0") (simp_all add: signed_modulo_int_def NUMIMAGES_def)
  have r0: "0 \<le> i mod NUMIMAGES" and r9: "i mod NUMIMAGES \<le> 9"
    by (simp_all add: NUMIMAGES_def)
  have a: "int32 ((i mod NUMIMAGES) * width) = (i mod NUMIMAGES) * width"
    using r0 r9 by (intro int32_id) (simp_all add: width_def)
  have b: "int32 ((i mod NUMIMAGES) * width * height) = (i mod NUMIMAGES) * width * height"
    using r0 r9 by (intro int32_id) (simp_all add: width_def height_def)
  show ?thesis
    unfolding frame_offset_def sm a b by (simp add: mult.assoc)
qed

lemma the_frame_dims: "fb_width (the_frame d) = width" "fb_height (the_frame d) = height"
  by (simp_all add: the_frame_def)

lemma frame_offset_bounds:
  assumes "0 \<le> i"
  shows "0 \<le> frame_offset i" "frame_offset i + width * height \<le> NUMIMAGES * (height * width)"
proof -
  have r0: "0 \<le> i mod NUMIMAGES" and r9: "i mod NUMIMAGES \<le> 9"
    by (simp_all add: NUMIMAGES_def)
  show "0 \<le> frame_offset i"
    unfolding frame_offset_nonneg[OF assms] using r0 by (simp add: width_def height_def)
  show "frame_offset i + width * height \<le> NUMIMAGES * (height * width)"
    unfolding frame_offset_nonneg[OF assms] using r9
    by (simp add: width_def height_def NUMIMAGES_def)
qed

lemma uploaded_pixels_nonneg:
  assumes "0 \<le> i"
  shows "uploaded_pixels images (the_frame d) (frame_offset i)
       = Some (take (nat (width * height))
                 (drop (nat ((i mod NUMIMAGES) * (width * height))) (written images)))"
proof -
  have wh: "0 \<le> width * height" by (simp add: width_def height_def)
  show ?thesis
    unfolding uploaded_pixels_def the_frame_dims written_images_length
    using frame_offset_bounds[OF assms] wh
    by (simp add: frame_offset_nonneg[OF assms])
qed

text \<open>
  For a non-negative value \<open>i\<close> of the loop counter, the iteration uploads the
  elements from \<open>(i mod NUMIMAGES) * width * height\<close> up to, not including,
  \<open>(i mod NUMIMAGES + 1) * width * height\<close>, and that range lies inside the allocated
  array and inside the part of it the generator stored.
\<close>

lemma upload_in_bounds_nonneg:
  assumes "0 \<le> i"
  shows "snd (loop_body (the_frame d) i tr)
           = tr @ [Texture (GlTexImage2D width height (frame_offset i)),
                   Draw (GlDrawElements 6), Glfw GlfwSwapBuffers, Glfw GlfwPollEvents]
       \<and> upload_range (the_frame d) (frame_offset i)
           = ((i mod NUMIMAGES) * (width * height), (i mod NUMIMAGES + 1) * (width * height))
       \<and> in_allocation images (upload_range (the_frame d) (frame_offset i))
       \<and> uploaded_pixels images (the_frame d) (frame_offset i)
           = Some (take (nat (width * height))
                     (drop (nat ((i mod NUMIMAGES) * (width * height))) (written images)))"
proof -
  have a: "snd (loop_body (the_frame d) i tr)
           = tr @ [Texture (GlTexImage2D width height (frame_offset i)),
                   Draw (GlDrawElements 6), Glfw GlfwSwapBuffers, Glfw GlfwPollEvents]"
    by (simp add: loop_body_def framebuffer_draw_def Let_def the_frame_dims)
  have b: "upload_range (the_frame d) (frame_offset i)
           = ((i mod NUMIMAGES) * (width * height), (i mod NUMIMAGES + 1) * (width * height))"
    unfolding upload_range_def the_frame_dims frame_offset_nonneg[OF assms]
    by (simp add: algebra_simps)
  have c: "in_allocation images (upload_range (the_frame d) (frame_offset i))"
    unfolding in_allocation_def upload_range_def the_frame_dims alloc_elems_images
    using frame_offset_bounds[OF assms]
    by (simp add: width_def height_def NUMIMAGES_def)
  show ?thesis by (intro conjI a b c uploaded_pixels_nonneg[OF assms])
qed

lemma upload_in_bounds_examples:
  "upload_range (the_frame demo_driver) (frame_offset 25) = (3932160, 4718592)
   \<and> in_allocation images (upload_range (the_frame demo_driver) (frame_offset 25))
   \<and> alloc_elems images = 31457280
   \<and> upload_range (the_frame demo_driver) (frame_offset 2147483647) = (5505024, 6291456)
   \<and> in_allocation images (upload_range (the_frame demo_driver) (frame_offset 2147483647))"
proof -
  have p: "(0 :: int) \<le> 25" "(0 :: int) \<le> 2147483647" by simp_all
  note t = upload_in_bounds_nonneg[OF p(1), of demo_driver "[]"]
  note u = upload_in_bounds_nonneg[OF p(2), of demo_driver "[]"]
  have a: "upload_range (the_frame demo_driver) (frame_offset 25) = (3932160, 4718592)"
    using t[THEN conjunct2, THEN conjunct1] by (simp add: NUMIMAGES_def width_def height_def)
  have b: "upload_range (the_frame demo_driver) (frame_offset 2147483647) = (5505024, 6291456)"
    using u[THEN conjunct2, THEN conjunct1] by (simp add: NUMIMAGES_def width_def height_def)
  show ?thesis
    by (intro conjI a b alloc_elems_images t[THEN conjunct2, THEN conjunct2, THEN conjunct1]
          u[THEN conjunct2, THEN conjunct2, THEN conjunct1])
qed

text \<open>
  The counter itself is a 32-bit \<^verbatim>\<open>int\<close> that is incremented at every iteration.
  It is the iteration's index for the first \<open>2 ^ 31\<close> iterations; the increment of
  2147483647 wraps to -2147483648, whose remainder by 10 is -8 in C, and the upload of
  that iteration reads from 6291456 elements before the start of the array.
\<close>

lemma counter_no_wrap: "int k < 2 ^ 31 \<Longrightarrow> counter_after 0 k = int k"
  unfolding counter_after_0 by (rule int32_id) simp_all

lemma counter_wraps:
  "counter_after 0 2147483647 = 2147483647"
  "counter_after 0 2147483648 = - 2147483648"
  "frame_offset (counter_after 0 2147483648) = - 6291456"
  "\<not> in_allocation images (upload_range (the_frame d) (frame_offset (counter_after 0 2147483648)))"
  "uploaded_pixels images (the_frame d) (frame_offset (counter_after 0 2147483648)) = None"
proof -
  show a: "counter_after 0 2147483647 = 2147483647"
    unfolding counter_after_0 by (simp add: int32_numeral_simps)
  show b: "counter_after 0 2147483648 = - 2147483648"
    unfolding counter_after_0 by (simp add: int32_numeral_simps)
  show c: "frame_offset (counter_after 0 2147483648) = - 6291456"
    unfolding b
    by (simp add: frame_offset_def NUMIMAGES_def width_def height_def signed_modulo_int_def
          int32_numeral_simps)
  show "\<not> in_allocation images (upload_range (the_frame d) (frame_offset (counter_after 0 2147483648)))"
    unfolding c by (simp add: in_allocation_def upload_range_def)
  show "uploaded_pixels images (the_frame d) (frame_offset (counter_after 0 2147483648)) = None"
    unfolding c by (simp add: uploaded_pixels_def)
qed

lemma first_offsets:
  "map (\<lambda>j. frame_offset (counter_after 0 j)) [0..<11]
     = [0, 786432, 1572864, 2359296, 3145728, 3932160, 4718592, 5505024, 6291456, 7077888, 0]"
proof -
  have l: "[0..<11] = [0, 1, 2, 3, 4, 5, 6, 7, 8, 9, 10 :: nat]"
    by (simp add: upt_rec)
  have "map (\<lambda>j. frame_offset (counter_after 0 j)) [0..<11]
      = map (\<lambda>j. (int j mod NUMIMAGES) * (width * height)) [0..<11]"
    by (rule map_cong) (simp_all add: counter_no_wrap frame_offset_nonneg)
  then show ?thesis
    unfolding l by (simp add: NUMIMAGES_def width_def height_def)
qed

text \<open>
  While the counter is non-negative, frame selection has period \<open>NUMIMAGES\<close>: the
  upload at counter \<open>i + NUMIMAGES\<close> reads the same elements as the upload at counter
  \<open>i\<close>. A run with no exit request during the first ten iterations uploads the images
  0 to 9, each once and in this order, and at the iteration after them image 0 again.
\<close>

lemma frame_period_nonneg:
  "(0 \<le> i \<longrightarrow>
       frame_offset (i + NUMIMAGES) = frame_offset i
     \<and> uploaded_pixels images (the_frame d) (frame_offset (i + NUMIMAGES))
         = uploaded_pixels images (the_frame d) (frame_offset i)
     \<and> uploaded_pixels images (the_frame d) (frame_offset i) \<noteq> None)
   \<and> (int k < 2 ^ 31 \<longrightarrow> counter_after 0 k = int k)
   \<and> ((\<forall>j<10. \<not> exit_requested d j) \<and> exit_requested d 10 \<longrightarrow>
        (\<exists>i' tr'. render_loop d (the_frame d) 0 0 [] = Some (i', tr')
           \<and> filter is_upload tr'
               = map (\<lambda>off. Texture (GlTexImage2D width height off))
                   [0, 786432, 1572864, 2359296, 3145728, 3932160, 4718592, 5505024,
                    6291456, 7077888, 0]))
   \<and> NUMIMAGES = 10 \<and> width * height = 786432"
proof -
  have a: "0 \<le> i \<longrightarrow>
       frame_offset (i + NUMIMAGES) = frame_offset i
     \<and> uploaded_pixels images (the_frame d) (frame_offset (i + NUMIMAGES))
         = uploaded_pixels images (the_frame d) (frame_offset i)
     \<and> uploaded_pixels images (the_frame d) (frame_offset i) \<noteq> None"
  proof
    assume i: "0 \<le> i"
    then have j: "0 \<le> i + NUMIMAGES" by (simp add: NUMIMAGES_def)
    have e: "frame_offset (i + NUMIMAGES) = frame_offset i"
      unfolding frame_offset_nonneg[OF i] frame_offset_nonneg[OF j] by simp
    show "frame_offset (i + NUMIMAGES) = frame_offset i
     \<and> uploaded_pixels images (the_frame d) (frame_offset (i + NUMIMAGES))
         = uploaded_pixels images (the_frame d) (frame_offset i)
     \<and> uploaded_pixels images (the_frame d) (frame_offset i) \<noteq> None"
      unfolding e using uploaded_pixels_nonneg[OF i, of d] by simp
  qed
  have b: "int k < 2 ^ 31 \<longrightarrow> counter_after 0 k = int k"
    using counter_no_wrap by blast
  have c: "(\<forall>j<10. \<not> exit_requested d j) \<and> exit_requested d 10 \<longrightarrow>
        (\<exists>i' tr'. render_loop d (the_frame d) 0 0 [] = Some (i', tr')
           \<and> filter is_upload tr'
               = map (\<lambda>off. Texture (GlTexImage2D width height off))
                   [0, 786432, 1572864, 2359296, 3145728, 3932160, 4718592, 5505024,
                    6291456, 7077888, 0])"
  proof
    assume h: "(\<forall>j<10. \<not> exit_requested d j) \<and> exit_requested d 10"
    then have r: "render_loop d (the_frame d) 0 0 []
        = Some (iterations d (the_frame d) 0 (Suc 10 - 0) 0 [])"
      by (intro render_loop_first_exit) simp_all
    have s: "Suc 10 - 0 = (11 :: nat)" by simp
    from iterations_trace[of d "the_frame d" 0 11 0 "[]"] obtain ext where
      x: "snd (iterations d (the_frame d) 0 11 0 []) = [] @ ext"
      and u: "filter is_upload ext
             = map (\<lambda>j. Texture (GlTexImage2D (fb_width (the_frame d)) (fb_height (the_frame d))
                                     (frame_offset (counter_after 0 j)))) [0..<11]"
      by blast
    have "filter is_upload (snd (iterations d (the_frame d) 0 11 0 []))
        = map (\<lambda>off. Texture (GlTexImage2D width height off))
            (map (\<lambda>j. frame_offset (counter_after 0 j)) [0..<11])"
      unfolding x using u by (simp add: the_frame_dims comp_def)
    then have f: "filter is_upload (snd (iterations d (the_frame d) 0 11 0 []))
        = map (\<lambda>off. Texture (GlTexImage2D width height off))
                   [0, 786432, 1572864, 2359296, 3145728, 3932160, 4718592, 5505024,
                    6291456, 7077888, 0]"
      unfolding first_offsets .
    show "\<exists>i' tr'. render_loop d (the_frame d) 0 0 [] = Some (i', tr')
           \<and> filter is_upload tr'
               = map (\<lambda>off. Texture (GlTexImage2D width height off))
                   [0, 786432, 1572864, 2359296, 3145728, 3932160, 4718592, 5505024,
                    6291456, 7077888, 0]"
      by (rule exI[of _ "fst (iterations d (the_frame d) 0 11 0 [])"],
          rule exI[of _ "snd (iterations d (the_frame d) 0 11 0 [])"])
         (simp add: r s f)
  qed
  have n: "NUMIMAGES = 10" "width * height = 786432"
    by (simp_all add: NUMIMAGES_def width_def height_def)
  show ?thesis by (intro conjI a b c n)
qed

lemma frame_period_examples:
  "frame_offset (7 + NUMIMAGES) = frame_offset 7
   \<and> uploaded_pixels images (the_frame ten_driver) (frame_offset (7 + NUMIMAGES))
       = uploaded_pixels images (the_frame ten_driver) (frame_offset 7)
   \<and> counter_after 0 10 = 10
   \<and> (\<exists>i' tr'. render_loop ten_driver (the_frame ten_driver) 0 0 [] = Some (i', tr')
           \<and> filter is_upload tr'
               = map (\<lambda>off. Texture (GlTexImage2D width height off))
                   [0, 786432, 1572864, 2359296, 3145728, 3932160, 4718592, 5505024,
                    6291456, 7077888, 0])"
proof -
  note t = frame_period_nonneg[of 7 ten_driver 10]
  have p: "(0 :: int) \<le> 7" by simp
  have q: "int 10 < 2 ^ 31" by simp
  have x: "(\<forall>j<10. \<not> exit_requested ten_driver j) \<and> exit_requested ten_driver 10"
    by (simp add: ten_driver_def demo_driver_def exit_requested_def GLFW_PRESS_def)
  note a = t[THEN conjunct1, THEN mp, OF p]
  have b: "counter_after 0 10 = 10"
    using t[THEN conjunct2, THEN conjunct1, THEN mp, OF q] by simp
  note c = t[THEN conjunct2, THEN conjunct2, THEN conjunct1, THEN mp, OF x]
  show ?thesis
    by (intro conjI a[THEN conjunct1] a[THEN conjunct2, THEN conjunct1] b c)
qed

subsection \<open>A run of more than \<open>2 ^ 31\<close> iterations\<close>

text \<open>
  \<open>late_driver\<close> asks for the window to be closed at the evaluation of the loop
  condition that ends iteration 2147483648, and not before. \<^verbatim>\<open>main\<close> returns 0 on
  it, and the uploads of the run are those of the iterations 0 to 2147483648.
\<close>

lemma late_driver_facts:
  "init_ok late_driver" "compiles late_driver GL_VERTEX_SHADER"
  "compiles late_driver GL_FRAGMENT_SHADER"
  "\<forall>j. 0 \<le> j \<and> j < 2147483648 \<longrightarrow> \<not> exit_requested late_driver j"
  "exit_requested late_driver 2147483648"
  by (simp_all add: late_driver_def demo_driver_def init_ok_def compiles_def
        exit_requested_def GL_TRUE_def GLEW_OK_def GLFW_PRESS_def)

lemma late_run:
  "\<exists>tr. main late_driver = Some (Returned 0, tr)
     \<and> filter is_upload tr
         = map (\<lambda>j. Texture (GlTexImage2D width height (frame_offset (counter_after 0 j))))
             [0..<Suc 2147483648]"
proof -
  let ?d = late_driver
  from main_run[OF late_driver_facts(1,2,3)] obtain pre where
    m: "main ?d = map_option (\<lambda>(i, tr4). (Returned 0, main_shutdown (the_locals ?d) tr4))
                          (render_loop ?d (the_frame ?d) 0 0 pre)"
    and pu: "filter is_upload pre = []"
    by blast
  have r: "render_loop ?d (the_frame ?d) 0 0 pre
      = Some (iterations ?d (the_frame ?d) 0 (Suc 2147483648 - 0) 0 pre)"
    using late_driver_facts(4,5) by (intro render_loop_first_exit) simp_all
  from iterations_trace[of ?d "the_frame ?d" 0 "Suc 2147483648 - 0" 0 pre] obtain ext where
    x: "snd (iterations ?d (the_frame ?d) 0 (Suc 2147483648 - 0) 0 pre) = pre @ ext"
    and u: "filter is_upload ext
          = map (\<lambda>j. Texture (GlTexImage2D (fb_width (the_frame ?d)) (fb_height (the_frame ?d))
                                  (frame_offset (counter_after 0 j)))) [0..<Suc 2147483648 - 0]"
    by blast
  obtain i' tr4 where it: "iterations ?d (the_frame ?d) 0 (Suc 2147483648 - 0) 0 pre = (i', tr4)"
    by (cases "iterations ?d (the_frame ?d) 0 (Suc 2147483648 - 0) 0 pre")
  have tr4: "tr4 = pre @ ext" using x it by simp
  have mm: "main ?d = Some (Returned 0, main_shutdown (the_locals ?d) (pre @ ext))"
    unfolding m r it tr4 by simp
  have z: "Suc 2147483648 - 0 = Suc 2147483648" by (rule diff_zero)
  have f: "filter is_upload (main_shutdown (the_locals ?d) (pre @ ext))
      = map (\<lambda>j. Texture (GlTexImage2D width height (frame_offset (counter_after 0 j))))
             [0..<Suc 2147483648]"
    unfolding main_shutdown_trace filter_append pu u the_frame_dims z by simp
  show ?thesis
    by (rule exI[of _ "main_shutdown (the_locals ?d) (pre @ ext)"]) (intro conjI mm f)
qed

lemma late_upload_nth:
  assumes "k < Suc 2147483648"
  shows "map (\<lambda>j. Texture (GlTexImage2D width height (frame_offset (counter_after 0 j))))
             [0..<Suc 2147483648] ! k
       = Texture (GlTexImage2D width height (frame_offset (counter_after 0 k)))"
proof -
  have l: "k < length [0..<Suc 2147483648]" using assms by (simp only: length_upt diff_zero)
  have n: "[0..<Suc 2147483648] ! k = k"
    using nth_upt[of 0 k "Suc 2147483648"] assms by (simp only: add_0)
  show ?thesis by (simp only: nth_map[OF l] n)
qed

lemma offset_before_wrap: "frame_offset (counter_after 0 2147483638) = 6291456"
proof -
  have "counter_after 0 2147483638 = int 2147483638" by (rule counter_no_wrap) simp
  then have c: "counter_after 0 2147483638 = 2147483638" by simp
  show ?thesis
    unfolding c by (simp add: frame_offset_nonneg NUMIMAGES_def width_def height_def)
qed

text \<open>
  C10. The claim, that the unbounded increment of the counter never makes an upload
  read outside the image buffer, does not hold of the code: the counter does not stay
  non-negative. In the run of \<open>late_driver\<close> the counter is 2147483647 at iteration
  2147483647 and -2147483648 at the next one, and the upload of that iteration reads
  the elements from -6291456 up to -5505024, which are not in the allocation.
\<close>

theorem C10_overflow_reads_out_of_bounds:
  "\<exists>tr. main late_driver = Some (Returned 0, tr)
     \<and> filter is_upload tr ! 2147483648 = Texture (GlTexImage2D width height (- 6291456))
     \<and> upload_range (the_frame late_driver) (- 6291456) = (- 6291456, - 5505024)
     \<and> \<not> in_allocation images (upload_range (the_frame late_driver) (- 6291456))
     \<and> counter_after 0 2147483647 = 2147483647
     \<and> counter_after 0 2147483648 = - 2147483648
     \<and> frame_offset (- 2147483648) = - 6291456"
proof -
  from late_run obtain tr where m: "main late_driver = Some (Returned 0, tr)"
    and u: "filter is_upload tr
         = map (\<lambda>j. Texture (GlTexImage2D width height (frame_offset (counter_after 0 j))))
             [0..<Suc 2147483648]"
    by blast
  have k: "(2147483648 :: nat) < Suc 2147483648" by simp
  have a: "filter is_upload tr ! 2147483648 = Texture (GlTexImage2D width height (- 6291456))"
    unfolding u late_upload_nth[OF k] counter_wraps(3) ..
  have b: "upload_range (the_frame late_driver) (- 6291456) = (- 6291456, - 5505024)"
    by (simp add: upload_range_def the_frame_dims width_def height_def)
  have c: "\<not> in_allocation images (upload_range (the_frame late_driver) (- 6291456))"
    using counter_wraps(4)[of late_driver] unfolding counter_wraps(3) .
  have e: "frame_offset (- 2147483648) = - 6291456"
    using counter_wraps(3) unfolding counter_wraps(2) .
  show ?thesis
    by (rule exI[of _ tr]) (intro conjI m a b c counter_wraps(1) counter_wraps(2) e)
qed

text \<open>
  C6. The claim, that the iterations \<open>i\<close> and \<open>i + NUMIMAGES\<close> select the same pixel
  data for every non-negative \<open>i\<close>, does not hold of the code at the same overflow: in
  the run of \<open>late_driver\<close> iteration 2147483638 uploads image 8 (offset 6291456),
  and iteration 2147483648, ten later, uploads from offset -6291456, where there is no
  pixel data.
\<close>

theorem C6_period_broken_by_overflow:
  "\<exists>tr. main late_driver = Some (Returned 0, tr)
     \<and> filter is_upload tr ! 2147483638 = Texture (GlTexImage2D width height 6291456)
     \<and> filter is_upload tr ! (2147483638 + 10) = Texture (GlTexImage2D width height (- 6291456))
     \<and> uploaded_pixels images (the_frame late_driver) 6291456
         = Some (take 786432 (drop 6291456 (written images)))
     \<and> uploaded_pixels images (the_frame late_driver) (- 6291456) = None"
proof -
  from late_run obtain tr where m: "main late_driver = Some (Returned 0, tr)"
    and u: "filter is_upload tr
         = map (\<lambda>j. Texture (GlTexImage2D width height (frame_offset (counter_after 0 j))))
             [0..<Suc 2147483648]"
    by blast
  have k1: "(2147483638 :: nat) < Suc 2147483648" by simp
  have k2: "(2147483648 :: nat) < Suc 2147483648" by simp
  have s: "(2147483638 :: nat) + 10 = 2147483648" by simp
  have a: "filter is_upload tr ! 2147483638 = Texture (GlTexImage2D width height 6291456)"
    unfolding u late_upload_nth[OF k1] offset_before_wrap ..
  have b: "filter is_upload tr ! (2147483638 + 10)
         = Texture (GlTexImage2D width height (- 6291456))"
    unfolding s u late_upload_nth[OF k2] counter_wraps(3) ..
  have p: "(0 :: int) \<le> 2147483638" by simp
  have c: "uploaded_pixels images (the_frame late_driver) 6291456
         = Some (take 786432 (drop 6291456 (written images)))"
    using uploaded_pixels_nonneg[OF p, of late_driver]
    unfolding frame_offset_nonneg[OF p]
    by (simp add: NUMIMAGES_def width_def height_def)
  have e: "uploaded_pixels images (the_frame late_driver) (- 6291456) = None"
    using counter_wraps(5)[of late_driver] unfolding counter_wraps(3) .
  show ?thesis
    by (rule exI[of _ tr]) (intro conjI m a b c e)
qed

end
